theory Spec2Isabelle
  imports Main
begin

section \<open>minio-js: the request pipeline of \<open>src/main/minio.js\<close>\<close>

text \<open>
  The client is a JavaScript class. Its methods are modelled as HOL functions over an
  explicit client state; a thrown exception and an error handed to a callback are
  values of the result type. Numbers that count bytes, ports and HTTP statuses are
  integers or naturals: JavaScript computes on doubles, which represent every integer
  below \<open>2^53\<close> exactly, and for byte counts up to 5 TiB the rounded quotient
  \<open>size / 9999\<close> has the same floor as the exact one.
\<close>

subsection \<open>Part size of a multipart upload\<close>

text \<open>
  \<^verbatim>\<open>
  function calculatePartSize(size) {
    var minimumPartSize = 5 * 1024 * 1024, // 5MB
      maximumPartSize = 5 * 1025 * 1024 * 1024,
      partSize = Math.floor(size / 9999)
    if (partSize > maximumPartSize) { return maximumPartSize }
    return Math.max(minimumPartSize, partSize)
  }
  \<close>
\<close>

definition minimumPartSize :: int where
  "minimumPartSize = 5 * 1024 * 1024"

definition maximumPartSize :: int where
  "maximumPartSize = 5 * 1025 * 1024 * 1024"

definition calculatePartSize :: "int \<Rightarrow> int" where
  "calculatePartSize sz =
     (let partSize = sz div 9999
      in if partSize > maximumPartSize then maximumPartSize
         else max minimumPartSize partSize)"

text \<open>
  The specification's wording of the same choice: \<open>clamp(floor(size/9999), 5 MiB, 5 GiB)\<close>,
  with the part count \<open>ceil(size/partSize)\<close>.
\<close>

definition MiB :: int where
  "MiB = 1024 * 1024"

definition GiB :: int where
  "GiB = 1024 * 1024 * 1024"

definition TiB :: int where
  "TiB = 1024 * 1024 * 1024 * 1024"

definition clamp :: "int \<Rightarrow> int \<Rightarrow> int \<Rightarrow> int" where
  "clamp x lo hi = (if x < lo then lo else if x > hi then hi else x)"

definition spec_partSize :: "int \<Rightarrow> int" where
  "spec_partSize sz = clamp (sz div 9999) (5 * MiB) (5 * GiB)"

definition partCount :: "int \<Rightarrow> int \<Rightarrow> int" where
  "partCount sz partSize = (sz + partSize - 1) div partSize"

subsection \<open>JavaScript values\<close>

text \<open>
  An optional string argument is a \<open>string option\<close>, with \<open>None\<close> for
  \<open>undefined\<close>. In a condition \<open>undefined\<close> and the empty string are falsy;
  in a template literal \<open>undefined\<close> prints as the word.
\<close>

definition truthy :: "string option \<Rightarrow> bool" where
  "truthy v = (case v of None \<Rightarrow> False | Some s \<Rightarrow> s \<noteq> [])"

definition interpolate :: "string option \<Rightarrow> string" where
  "interpolate v = (case v of None \<Rightarrow> ''undefined'' | Some s \<Rightarrow> s)"

definition quoted :: "string \<Rightarrow> string" where
  "quoted s = [CHR 0x22] @ s @ [CHR 0x22]"

text \<open>
  \<open>s.trim() === ''\<close>: every character of \<open>s\<close> is white space (the white space of
  the ASCII range; strings here are lists of 8-bit characters).
\<close>

definition isWhiteSpace :: "char \<Rightarrow> bool" where
  "isWhiteSpace c = (c \<in> set [CHR 0x09, CHR 0x0A, CHR 0x0B, CHR 0x0C, CHR 0x0D, CHR 0x20])"

definition trimIsEmpty :: "string \<Rightarrow> bool" where
  "trimIsEmpty s = list_all isWhiteSpace s"

text \<open>The decimal form \<open>`${n}`\<close> of an integral number.\<close>

fun showNat :: "nat \<Rightarrow> string" where
  "showNat n =
     (if n < 10 then [''0123456789'' ! n]
      else showNat (n div 10) @ [''0123456789'' ! (n mod 10)])"

declare showNat.simps [simp del]

definition numberToString :: "int \<Rightarrow> string" where
  "numberToString i = (if i < 0 then ''-'' @ showNat (nat (- i)) else showNat (nat i))"

subsection \<open>Errors\<close>

text \<open>
  Exceptions thrown synchronously at the call site, and the error objects handed to a
  callback (an S3 error document or a transport error; \<open>code\<close> may be undefined).
\<close>

datatype exn =
    InvalidEndPointException string
  | InvalidProtocolException string
  | InvalidBucketNameException string
  | InvalidObjectNameException string
  | TypeError string

record jserror =
  code :: "string option"
  message :: string
  details :: "(string \<times> string) list"

subsection \<open>Streams, responses and the modules that are imported\<close>

text \<open>
  A readable stream delivers its chunks in order and then either ends or emits
  \<open>'error'\<close>.
\<close>

datatype 'a readable = Readable (chunks: "'a list") (failure: "jserror option")

record response =
  statusCode :: nat
  headers :: "(string \<times> string) list"
  body :: "string readable"

text \<open>What the transport answers to a request: \<open>'error'\<close> or a response.\<close>

datatype reply = NetworkError jserror | Response response

text \<open>
  Modelled from the spec: \<open>getConcater\<close> of \<open>transformers.js\<close> piped by
  \<open>pipesetup\<close> of \<open>helpers.js\<close> (neither is under src). Concat buffers the chunks and
  emits a single bytes value; an error of the piped stream is passed on.
\<close>

definition concater :: "string readable \<Rightarrow> jserror + string" where
  "concater s = (case failure s of Some e \<Rightarrow> Inl e | None \<Rightarrow> Inr (concat (chunks s)))"

text \<open>
  The functions of \<open>helpers.js\<close> and \<open>transformers.js\<close> that the modelled methods
  call are parameters. The error transformer is built from the response and fed the
  concatenated body; it always ends its pipeline with an error. The other transformers
  are fed the concatenated body.
\<close>

record deps =
  isValidBucketName :: "string \<Rightarrow> bool"
  isValidObjectName :: "string \<Rightarrow> bool"
  uriResourceEscape :: "string \<Rightarrow> string"
  errorTransformer :: "response \<Rightarrow> string \<Rightarrow> jserror"
  bucketRegionTransformer :: "string \<Rightarrow> jserror + string"
  listBucketTransformer :: "string \<Rightarrow> (string \<times> string) readable"

text \<open>\<open>pipesetup(response, concater, errorTransformer).on('error', e => cb(e))\<close>\<close>

definition errorPipeline :: "deps \<Rightarrow> response \<Rightarrow> jserror" where
  "errorPipeline D r =
     (case concater (body r) of Inl e \<Rightarrow> e | Inr b \<Rightarrow> errorTransformer D r b)"

subsection \<open>The client and its constructor\<close>

record newParams =
  host :: string
  port :: nat
  protocol :: string
  accessKey :: string
  secretKey :: string
  userAgent :: string

text \<open>
  The transport is Node's \<open>http\<close> or \<open>https\<close> module or an object passed by the
  caller (the tests pass a mock).
\<close>

datatype transport = Http | Https | Custom

record client =
  params :: newParams
  transport :: transport
  minioStorage :: bool
  regionMap :: "string \<rightharpoonup> string"

text \<open>
  \<open>host.match('.amazonaws.com$')\<close> compiles the string to a regular expression: a dot
  matches any character but a line terminator, every other character of this pattern
  matches itself, \<open>$\<close> is the end of the input, and the match may start anywhere.
\<close>

datatype atom = AnyChar | Lit char

fun atom_matches :: "atom \<Rightarrow> char \<Rightarrow> bool" where
  "atom_matches AnyChar c = (c \<noteq> CHR 0x0A \<and> c \<noteq> CHR 0x0D)"
| "atom_matches (Lit d) c = (c = d)"

fun matches_to_end :: "atom list \<Rightarrow> string \<Rightarrow> bool" where
  "matches_to_end [] s = (s = [])"
| "matches_to_end (a # as) [] = False"
| "matches_to_end (a # as) (c # cs) = (atom_matches a c \<and> matches_to_end as cs)"

fun regex_match :: "atom list \<Rightarrow> string \<Rightarrow> bool" where
  "regex_match p [] = matches_to_end p []"
| "regex_match p (c # cs) = (matches_to_end p (c # cs) \<or> regex_match p cs)"

definition amazonPattern :: "atom list" where
  "amazonPattern = AnyChar # map Lit ''amazonaws'' @ AnyChar # map Lit ''com''"

text \<open>
  \<open>Url.parse(params.endPoint)\<close> is Node's; the constructor is modelled from the parsed
  URL: \<open>protocol\<close> with its colon (or null), \<open>hostname\<close>, and \<open>port\<close> (null or
  digits, which the unary plus turns into a number, null into 0).
\<close>

record parsedUrl =
  urlProtocol :: "string option"
  hostname :: string
  urlPort :: "nat option"

record runtime =
  platform :: string
  arch :: string
  version :: string

definition libraryAgent :: "runtime \<Rightarrow> string" where
  "libraryAgent rt =
     ''Minio ('' @ platform rt @ ''; '' @ arch rt @ '') minio-js/'' @ version rt"

definition newClient ::
  "string \<Rightarrow> nat \<Rightarrow> string \<Rightarrow> string \<Rightarrow> string \<Rightarrow> string \<Rightarrow> transport \<Rightarrow> bool \<Rightarrow> client" where
  "newClient h p proto ak sk ua t ms =
     \<lparr>params = \<lparr>host = h, port = p, protocol = proto, accessKey = ak, secretKey = sk,
         userAgent = ua\<rparr>,
       transport = t, minioStorage = ms, regionMap = Map.empty\<rparr>"

definition constructor ::
  "runtime \<Rightarrow> parsedUrl \<Rightarrow> string \<Rightarrow> string \<Rightarrow> string \<Rightarrow> transport option \<Rightarrow> exn + client" where
  "constructor rt parsed endPoint ak sk transportArg =
     (let port0 = (case urlPort parsed of None \<Rightarrow> 0 | Some n \<Rightarrow> n);
          h = hostname parsed;
          amazon = regex_match amazonPattern h
      in if amazon \<and> h \<noteq> ''s3.amazonaws.com'' then
           Inl (InvalidEndPointException
             (''endPoint '' @ endPoint @ '' invalid, endPoint has to be ''
               @ quoted ''https://s3.amazonaws.com'' @ '' for AWS S3''))
         else
           (case transportArg of
              Some t \<Rightarrow> Inr (newClient h port0 [] ak sk (libraryAgent rt) t (\<not> amazon))
            | None \<Rightarrow>
                if urlProtocol parsed = Some ''http:'' then
                  Inr (newClient h (if port0 = 0 then 80 else port0) ''http:'' ak sk
                        (libraryAgent rt) Http (\<not> amazon))
                else if urlProtocol parsed = Some ''https:'' then
                  Inr (newClient h (if port0 = 0 then 443 else port0) ''https:'' ak sk
                        (libraryAgent rt) Https (\<not> amazon))
                else
                  Inl (InvalidProtocolException
                    (''Unknown protocol: ''
                      @ (case urlProtocol parsed of None \<Rightarrow> ''null'' | Some s \<Rightarrow> s)))))"

subsection \<open>Request options\<close>

text \<open>
  The options object passed to \<open>getRequestOptions\<close> and the descriptor it returns.
  Fields that the two objects and the client's parameters share in the source
  (\<open>method\<close>, \<open>headers\<close>, \<open>host\<close>, \<open>port\<close>, \<open>protocol\<close>) carry a
  prefix here.
\<close>

record opts =
  optMethod :: string
  bucketName :: "string option"
  objectName :: "string option"
  optHeaders :: "(string \<times> string) list option"
  query :: "string option"

record reqOptions =
  reqMethod :: string
  reqPort :: nat
  reqProtocol :: string
  reqHeaders :: "(string \<times> string) list option"
  path :: string
  reqHost :: string

text \<open>
  \<^verbatim>\<open>
  if (objectName) { objectName = `${uriResourceEscape(objectName)}` }
  reqOptions.path = '/'
  if (this.minioStorage) {
    reqOptions.host = this.params.host
    if (bucketName) reqOptions.path = `/${bucketName}`
    if (objectName) reqOptions.path = `/${bucketName}/${objectName}`
  } else {
    reqOptions.host = `${this.params.host}`
    if (bucketName) reqOptions.host = `${bucketName}.${this.params.host}`
    if (objectName) reqOptions.path = `/${objectName}`
  }
  if (query) reqOptions.path += `?${query}`
  \<close>
\<close>

definition getRequestOptions :: "deps \<Rightarrow> client \<Rightarrow> opts \<Rightarrow> reqOptions" where
  "getRequestOptions D c options =
     (let bucket = bucketName options;
          object = (if truthy (objectName options)
                    then map_option (uriResourceEscape D) (objectName options)
                    else objectName options);
          path0 = ''/'';
          path1 = (if minioStorage c then
                     (let p = (if truthy bucket then ''/'' @ interpolate bucket else path0)
                      in if truthy object
                         then ''/'' @ interpolate bucket @ ''/'' @ interpolate object else p)
                   else
                     (if truthy object then ''/'' @ interpolate object else path0));
          h = (if minioStorage c then host (params c)
               else if truthy bucket then interpolate bucket @ ''.'' @ host (params c)
               else host (params c))
      in \<lparr>reqMethod = optMethod options,
          reqPort = port (params c),
          reqProtocol = protocol (params c),
          reqHeaders = optHeaders options,
          path = (if truthy (query options) then path1 @ ''?'' @ interpolate (query options)
                  else path1),
          reqHost = h\<rparr>)"

definition header :: "reqOptions \<Rightarrow> string \<Rightarrow> string option" where
  "header r name = (case reqHeaders r of None \<Rightarrow> None | Some hs \<Rightarrow> map_of hs name)"

subsection \<open>Region lookup\<close>

text \<open>
  \<open>getBucketRegion\<close> answers at once when the endpoint is not Amazon's, when there
  is no bucket, or when the bucket is cached (lines 206 to 208); otherwise it sends
  \<open>GET /bucket?location\<close> and returns. The response handler (lines 217 to 234) runs
  later, when the transport answers: only there is \<open>regionMap\<close> written. The two
  halves are separate definitions, since other calls on the client can run between them.
  \<open>regionMap\<close> is the map of the entries the client has stored.
\<close>

datatype lookup = Immediate string | Issued string reqOptions

definition getBucketRegion_request :: "client \<Rightarrow> string \<Rightarrow> reqOptions" where
  "getBucketRegion_request c b =
     \<lparr>reqMethod = ''GET'',
      reqPort = port (params c),
      reqProtocol = protocol (params c),
      reqHeaders = None,
      path = ''/'' @ b @ ''?location'',
      reqHost = host (params c)\<rparr>"

definition getBucketRegion_start :: "client \<Rightarrow> string option \<Rightarrow> lookup" where
  "getBucketRegion_start c bucket =
     (if host (params c) \<noteq> ''s3.amazonaws.com'' then Immediate ''us-east-1''
      else case bucket of
             None \<Rightarrow> Immediate ''us-east-1''
           | Some b \<Rightarrow>
               if b = [] then Immediate ''us-east-1''
               else if truthy (regionMap c b) then Immediate (interpolate (regionMap c b))
               else Issued b (getBucketRegion_request c b))"

definition getBucketRegion_response ::
  "deps \<Rightarrow> client \<Rightarrow> string \<Rightarrow> reply \<Rightarrow> (jserror + string) \<times> client" where
  "getBucketRegion_response D c b rep =
     (case rep of
        NetworkError e \<Rightarrow> (Inl e, c)
      | Response r \<Rightarrow>
          if statusCode r \<noteq> 200 then (Inl (errorPipeline D r), c)
          else
            (case concater (body r) of
               Inl e \<Rightarrow> (Inl e, c)
             | Inr xml \<Rightarrow>
                 (case bucketRegionTransformer D xml of
                    Inl e \<Rightarrow> (Inl e, c)
                  | Inr region0 \<Rightarrow>
                      (let region = (if region0 = [] then ''us-east-1'' else region0)
                       in (Inr region, c\<lparr>regionMap := (regionMap c)(b \<mapsto> region)\<rparr>)))))"

text \<open>
  A lookup whose answer arrives before anything else happens on the client. The third
  component lists the requests handed to the transport, each with the region it is signed
  for (\<open>signV4\<close> is in \<open>signing.js\<close>, not under src; the descriptor is recorded as it
  is handed to the signer).
\<close>

definition getBucketRegion ::
  "deps \<Rightarrow> client \<Rightarrow> string option \<Rightarrow> reply
     \<Rightarrow> (jserror + string) \<times> client \<times> (reqOptions \<times> string) list" where
  "getBucketRegion D c bucket rep =
     (case getBucketRegion_start c bucket of
        Immediate region \<Rightarrow> (Inr region, c, [])
      | Issued b req \<Rightarrow>
          (let (res, c') = getBucketRegion_response D c b rep
           in (res, c', [(req, ''us-east-1'')])))"

text \<open>
  Calls that overlap in time: a state of the client together with the buckets whose
  location request is in flight. \<open>Lookup\<close> is the synchronous half of a region lookup
  (every operation that goes through \<open>makeRequest\<close> or pre-signs makes one),
  \<open>Answer\<close> is the transport answering one request in flight, \<open>SetAppInfo\<close> is the
  other method of the source that writes client state.
\<close>

datatype event = Lookup "string option" | Answer string reply | SetAppInfo string string

definition setAppInfo :: "client \<Rightarrow> string \<Rightarrow> string \<Rightarrow> client" where
  "setAppInfo c appName appVersion =
     c\<lparr>params := (params c)\<lparr>userAgent :=
          userAgent (params c) @ '' '' @ appName @ ''/'' @ appVersion\<rparr>\<rparr>"

fun step :: "deps \<Rightarrow> client \<times> string list \<Rightarrow> event \<Rightarrow> client \<times> string list" where
  "step D (c, inflight) (Lookup bucket) =
     (case getBucketRegion_start c bucket of
        Immediate region \<Rightarrow> (c, inflight)
      | Issued b req \<Rightarrow> (c, inflight @ [b]))"
| "step D (c, inflight) (Answer b rep) =
     (if b \<in> set inflight
      then (snd (getBucketRegion_response D c b rep), remove1 b inflight)
      else (c, inflight))"
| "step D (c, inflight) (SetAppInfo appName appVersion) =
     (if trimIsEmpty appName \<or> trimIsEmpty appVersion then (c, inflight)
      else (setAppInfo c appName appVersion, inflight))"

definition run :: "deps \<Rightarrow> client \<times> string list \<Rightarrow> event list \<Rightarrow> client \<times> string list" where
  "run D st es = foldl (step D) st es"

subsection \<open>makeRequest and the operations built on it\<close>

text \<open>
  The response handler of \<open>makeRequest\<close> (lines 189 to 199):
  \<^verbatim>\<open>
  if (!statusCode) return cb(null, response)
  if (statusCode != response.statusCode) { ... errorTransformer ... return }
  cb(null, response)
  \<close>
\<close>

definition makeRequest_response :: "deps \<Rightarrow> nat \<Rightarrow> response \<Rightarrow> jserror + response" where
  "makeRequest_response D expected r =
     (if expected = 0 then Inr r
      else if expected \<noteq> statusCode r then Inl (errorPipeline D r)
      else Inr r)"

text \<open>
  \<open>makeRequest\<close> with the two answers of the transport it can consume: the answer to
  the location request, used only when one is sent, and the answer to the request
  itself. Every caller in the source passes a function as the callback (its own
  closure or an argument it has checked), so the \<open>TypeError\<close> of line 180 does not
  arise and is left out.
\<close>

definition makeRequest ::
  "deps \<Rightarrow> client \<Rightarrow> opts \<Rightarrow> string \<Rightarrow> nat \<Rightarrow> reply \<Rightarrow> reply
     \<Rightarrow> (jserror + response) \<times> client \<times> (reqOptions \<times> string) list" where
  "makeRequest D c options payload expected regionReply rep =
     (let req = getRequestOptions D c options;
          (reg, c', sent) = getBucketRegion D c (bucketName options) regionReply
      in case reg of
           Inl e \<Rightarrow> (Inl e, c', sent)
         | Inr region \<Rightarrow>
             (case rep of
                NetworkError e \<Rightarrow> (Inl e, c', sent @ [(req, region)])
              | Response r \<Rightarrow> (makeRequest_response D expected r, c', sent @ [(req, region)])))"

definition callbackTypeError :: exn where
  "callbackTypeError = TypeError (''callback should be of type '' @ quoted ''function'')"

text \<open>\<open>listBuckets\<close> (lines 291 to 310).\<close>

definition listBuckets_error :: "jserror \<Rightarrow> jserror" where
  "listBuckets_error e =
     (if code e = Some ''TemporaryRedirect''
      then e\<lparr>code := Some ''AccessDenied'',
             message := ''Valid and authorized credentials required''\<rparr>
      else e)"

definition listBuckets_options :: opts where
  "listBuckets_options =
     \<lparr>optMethod = ''GET'', bucketName = None, objectName = None, optHeaders = None,
      query = None\<rparr>"

definition listBuckets ::
  "deps \<Rightarrow> client \<Rightarrow> bool \<Rightarrow> reply \<Rightarrow> reply
     \<Rightarrow> exn + ((jserror + (string \<times> string) readable) \<times> client \<times> (reqOptions \<times> string) list)" where
  "listBuckets D c cbIsFunction regionReply rep =
     (if \<not> cbIsFunction then Inl callbackTypeError
      else
        (let (res, c', sent) =
               makeRequest D c listBuckets_options [] 200 regionReply rep
         in Inr ((case res of
                    Inl e \<Rightarrow> Inl (listBuckets_error e)
                  | Inr r \<Rightarrow>
                      Inr (case concater (body r) of
                             Inl e \<Rightarrow> Readable [] (Some e)
                           | Inr xml \<Rightarrow> listBucketTransformer D xml)),
                 c', sent)))"

text \<open>
  The checks of bucket and object name with which \<open>getObject\<close>,
  \<open>getPartialObject\<close> and \<open>putObject\<close> begin.
\<close>

definition checkObjectArgs :: "deps \<Rightarrow> string \<Rightarrow> string \<Rightarrow> exn option" where
  "checkObjectArgs D b obj =
     (if \<not> isValidBucketName D b
      then Some (InvalidBucketNameException (''Invalid bucket name: '' @ b))
      else if \<not> isValidObjectName D obj
      then Some (InvalidObjectNameException (''Invalid object name: '' @ obj))
      else if trimIsEmpty obj
      then Some (InvalidObjectNameException ''Object name cannot be empty'')
      else None)"

text \<open>
  \<open>getPartialObject\<close> (lines 537 to 589): the range string, the options given to
  \<open>makeRequest\<close>, and the callback that receives the response.
  \<^verbatim>\<open>
  var range = ''
  if (offset || length) {
    if (offset) { range = `bytes=${+offset}-` }
    else { range = 'bytes=0-'; offset = 0 }
    if (length) { range += `${(+length + offset) - 1}` }
  }
  var headers = {}
  if (range !== '') { headers.Range = range }
  \<close>
\<close>

definition getPartialObject_range :: "int \<Rightarrow> int \<Rightarrow> string" where
  "getPartialObject_range offset len =
     (if offset \<noteq> 0 \<or> len \<noteq> 0 then
        (let range = (if offset \<noteq> 0 then ''bytes='' @ numberToString offset @ ''-''
                      else ''bytes=0-'');
             offset' = (if offset \<noteq> 0 then offset else 0)
         in if len \<noteq> 0 then range @ numberToString ((len + offset') - 1) else range)
      else [])"

definition getPartialObject_options :: "string \<Rightarrow> string \<Rightarrow> int \<Rightarrow> int \<Rightarrow> opts" where
  "getPartialObject_options b obj offset len =
     (let range = getPartialObject_range offset len
      in \<lparr>optMethod = ''GET'', bucketName = Some b, objectName = Some obj,
          optHeaders = Some (if range \<noteq> [] then [(''Range'', range)] else []),
          query = None\<rparr>)"

definition getPartialObject_callback ::
  "deps \<Rightarrow> jserror + response \<Rightarrow> jserror + string readable" where
  "getPartialObject_callback D res =
     (case res of
        Inl e \<Rightarrow> Inl e
      | Inr r \<Rightarrow>
          if \<not> (statusCode r = 200 \<or> statusCode r = 206) then Inl (errorPipeline D r)
          else Inr (body r))"

definition getPartialObject ::
  "deps \<Rightarrow> client \<Rightarrow> string \<Rightarrow> string \<Rightarrow> int \<Rightarrow> int \<Rightarrow> bool \<Rightarrow> reply \<Rightarrow> reply
     \<Rightarrow> exn + ((jserror + string readable) \<times> client \<times> (reqOptions \<times> string) list)" where
  "getPartialObject D c b obj offset len cbIsFunction regionReply rep =
     (case checkObjectArgs D b obj of
        Some x \<Rightarrow> Inl x
      | None \<Rightarrow>
          if \<not> cbIsFunction then Inl callbackTypeError
          else
            (let (res, c', sent) =
                   makeRequest D c (getPartialObject_options b obj offset len) [] 0
                     regionReply rep
             in Inr (getPartialObject_callback D res, c', sent)))"

text \<open>\<open>getObject\<close> (lines 513 to 527) checks its arguments and delegates.\<close>

definition getObject ::
  "deps \<Rightarrow> client \<Rightarrow> string \<Rightarrow> string \<Rightarrow> bool \<Rightarrow> reply \<Rightarrow> reply
     \<Rightarrow> exn + ((jserror + string readable) \<times> client \<times> (reqOptions \<times> string) list)" where
  "getObject D c b obj cbIsFunction regionReply rep =
     (case checkObjectArgs D b obj of
        Some x \<Rightarrow> Inl x
      | None \<Rightarrow>
          if \<not> cbIsFunction then Inl callbackTypeError
          else getPartialObject D c b obj 0 0 cbIsFunction regionReply rep)"

subsection \<open>putObject\<close>

text \<open>
  \<open>putObject\<close> (lines 600 to 677) calls methods of the superclass \<open>Multipart\<close>
  (\<open>multipart.js\<close>, not under src). They are parameters: each takes the state of the
  store it talks to and returns its callback's arguments and the new state. The stage
  \<open>uploadChunks\<close> stands for the pipeline of line 664,
  \<open>pipesetup(stream, chunker, sizeVerifier, chunkUploader)\<close>, with the block size of
  the chunker, the size the verifier expects, the arguments of \<open>chunkUploader\<close> and
  the stream that is piped in. The model records the calls it makes, in order.
\<close>

record ('s, 'p) multipart =
  doPutObject ::
    "string \<Rightarrow> string \<Rightarrow> string \<Rightarrow> string option \<Rightarrow> nat option \<Rightarrow> string \<Rightarrow> 's
       \<Rightarrow> (jserror + string) \<times> 's"
  findUploadId :: "string \<Rightarrow> string \<Rightarrow> 's \<Rightarrow> (jserror + string option) \<times> 's"
  listAllParts :: "string \<Rightarrow> string \<Rightarrow> string \<Rightarrow> 's \<Rightarrow> (jserror + 'p list) \<times> 's"
  initiateNewMultipartUpload ::
    "string \<Rightarrow> string \<Rightarrow> string \<Rightarrow> 's \<Rightarrow> (jserror + string option) \<times> 's"
  uploadChunks ::
    "string \<Rightarrow> string \<Rightarrow> string \<Rightarrow> string option \<Rightarrow> 'p list \<Rightarrow> int \<Rightarrow> int
       \<Rightarrow> string readable \<Rightarrow> 's \<Rightarrow> (jserror + 'p list) \<times> 's"
  completeMultipartUpload ::
    "string \<Rightarrow> string \<Rightarrow> string option \<Rightarrow> 'p list \<Rightarrow> 's \<Rightarrow> (jserror + string) \<times> 's"

datatype 'p call =
    DoPutObject string string string "string option" "nat option" string
  | FindUploadId string string
  | ListAllParts string string string
  | InitiateNewMultipartUpload string string string
  | UploadChunks string string string "string option" "'p list" int int "string readable"
  | CompleteMultipartUpload string string "string option" "'p list"

fun isDoPutObject :: "'p call \<Rightarrow> bool" where
  "isDoPutObject (DoPutObject b obj ct u n d) = True"
| "isDoPutObject other = False"

text \<open>
  The multipart path, the \<open>async.waterfall\<close> of lines 646 to 676: the first error
  ends it.
\<close>

definition putObject_multipart ::
  "('s, 'p) multipart \<Rightarrow> string \<Rightarrow> string \<Rightarrow> string readable \<Rightarrow> int \<Rightarrow> string \<Rightarrow> 's
     \<Rightarrow> (jserror + string) \<times> 's \<times> 'p call list" where
  "putObject_multipart M b obj stream sz contentType s =
     (let (found, s1) = findUploadId M b obj s;
          log1 = [FindUploadId b obj]
      in case found of
           Inl e \<Rightarrow> (Inl e, s1, log1)
         | Inr uploadId \<Rightarrow>
             (let (started, s2, log2) =
                    (if truthy uploadId then
                       (let (r, t) = listAllParts M b obj (interpolate uploadId) s1
                        in (map_sum id (\<lambda>etags. (uploadId, etags)) r, t,
                            log1 @ [ListAllParts b obj (interpolate uploadId)]))
                     else
                       (let (r, t) = initiateNewMultipartUpload M b obj contentType s1
                        in (map_sum id (\<lambda>u. (u, [])) r, t,
                            log1 @ [InitiateNewMultipartUpload b obj contentType]))
                    )
              in case started of
                   Inl e \<Rightarrow> (Inl e, s2, log2)
                 | Inr (uploadId', etags) \<Rightarrow>
                     (let partSize = calculatePartSize sz;
                          (uploaded, s3) =
                            uploadChunks M b obj contentType uploadId' etags partSize sz
                              stream s2;
                          log3 = log2 @ [UploadChunks b obj contentType uploadId' etags
                                           partSize sz stream]
                      in case uploaded of
                           Inl e \<Rightarrow> (Inl e, s3, log3)
                         | Inr etags' \<Rightarrow>
                             (let (r, s4) = completeMultipartUpload M b obj uploadId' etags' s3
                              in (r, s4,
                                  log3 @ [CompleteMultipartUpload b obj uploadId' etags'])))))"

text \<open>
  \<open>if (contentType.trim() === '') { contentType = 'application/octet-stream' }\<close>
\<close>

definition putObject_contentType :: "string \<Rightarrow> string" where
  "putObject_contentType contentType =
     (if trimIsEmpty contentType then ''application/octet-stream'' else contentType)"

definition putObject ::
  "deps \<Rightarrow> ('s, 'p) multipart \<Rightarrow> string \<Rightarrow> string \<Rightarrow> string readable \<Rightarrow> int \<Rightarrow> string
     \<Rightarrow> bool \<Rightarrow> 's \<Rightarrow> exn + ((jserror + string) \<times> 's \<times> 'p call list)" where
  "putObject D M b obj stream sz contentType0 cbIsFunction s =
     (case checkObjectArgs D b obj of
        Some x \<Rightarrow> Inl x
      | None \<Rightarrow>
          if \<not> cbIsFunction then Inl callbackTypeError
          else
            (let contentType = putObject_contentType contentType0
             in if sz \<le> 5 * 1024 * 1024 then
                  (case concater stream of
                     Inl e \<Rightarrow> Inr (Inl e, s, [])
                   | Inr chunk \<Rightarrow>
                       (let (r, s') = doPutObject M b obj contentType None None chunk s
                        in Inr (r, s', [DoPutObject b obj contentType None None chunk])))
                else Inr (putObject_multipart M b obj stream sz contentType s)))"

subsection \<open>The specification's vocabulary\<close>

text \<open>
  The query part of a request path: \<open>?q\<close> when a query is present.
\<close>

definition querySuffix :: "string option \<Rightarrow> string" where
  "querySuffix q = (if truthy q then ''?'' @ interpolate q else [])"

text \<open>
  Modelled from the spec: \<open>uriResourceEscape\<close> of \<open>helpers.js\<close> (not under src).
  Every byte other than the unreserved \<open>A-Z a-z 0-9 - _ . ~\<close> and the path separator
  \<open>/\<close> is percent-encoded.
\<close>

definition unreserved :: "char \<Rightarrow> bool" where
  "unreserved c =
     (c \<in> set ''ABCDEFGHIJKLMNOPQRSTUVWXYZabcdefghijklmnopqrstuvwxyz0123456789-_.~'')"

definition percentEncode :: "char \<Rightarrow> string" where
  "percentEncode c =
     [CHR ''%'', ''0123456789ABCDEF'' ! (of_char c div 16),
      ''0123456789ABCDEF'' ! (of_char c mod 16)]"

definition spec_uriResourceEscape :: "string \<Rightarrow> string" where
  "spec_uriResourceEscape s =
     concat (map (\<lambda>c. if unreserved c \<or> c = CHR ''/'' then [c] else percentEncode c) s)"

text \<open>
  The endpoint check of the constructor lets a hostname pass when the pattern does not
  match it or when it is Amazon's own; the scheme is accepted when it is \<open>http\<close> or
  \<open>https\<close>.
\<close>

definition endpointAccepted :: "string \<Rightarrow> bool" where
  "endpointAccepted h = (regex_match amazonPattern h \<longrightarrow> h = ''s3.amazonaws.com'')"

definition defaultedPort :: "nat option \<Rightarrow> nat \<Rightarrow> nat" where
  "defaultedPort p dflt = (case p of None \<Rightarrow> dflt | Some n \<Rightarrow> if n = 0 then dflt else n)"

text \<open>
  Every region in the cache is a non-empty string: the cache starts empty, and
  the response handler stores \<open>us-east-1\<close> in place of an empty location.
\<close>

definition cacheRegionsNonEmpty :: "client \<Rightarrow> bool" where
  "cacheRegionsNonEmpty c = (\<forall>b r. regionMap c b = Some r \<longrightarrow> r \<noteq> [])"

subsection \<open>Instances on which the model is evaluated\<close>

text \<open>
  Simple instances of the imported functions: names are valid when they are not
  blank, the error document \<open>Code: message\<close> is split at its first colon, the
  location document is the region itself, a bucket listing is the name of one bucket.
\<close>

definition exampleError :: "response \<Rightarrow> string \<Rightarrow> jserror" where
  "exampleError r xml =
     \<lparr>code = Some (takeWhile (\<lambda>c. c \<noteq> CHR '':'') xml),
      message = drop 2 (dropWhile (\<lambda>c. c \<noteq> CHR '':'') xml),
      details = headers r\<rparr>"

definition exampleDeps :: deps where
  "exampleDeps =
     \<lparr>isValidBucketName = (\<lambda>s. \<not> trimIsEmpty s),
      isValidObjectName = (\<lambda>s. s \<noteq> []),
      uriResourceEscape = spec_uriResourceEscape,
      errorTransformer = exampleError,
      bucketRegionTransformer = Inr,
      listBucketTransformer = (\<lambda>xml. Readable [(xml, [])] None)\<rparr>"

definition exampleRuntime :: runtime where
  "exampleRuntime = \<lparr>platform = ''linux'', arch = ''x64'', version = ''0.2.0''\<rparr>"

definition exampleUrl :: "string \<Rightarrow> string \<Rightarrow> parsedUrl" where
  "exampleUrl scheme h = \<lparr>urlProtocol = Some scheme, hostname = h, urlPort = None\<rparr>"

text \<open>
  A store that counts the calls it answers. It has the upload \<open>found\<close> in
  progress, if any, with one part; it starts the upload \<open>upload-1\<close> when asked to.
  Its chunk pipeline fails with a size mismatch when the stream does not deliver the
  declared number of bytes; otherwise it keeps the tags of the parts that exist and adds
  one for each further part.
\<close>

definition exampleObject :: "nat \<Rightarrow> string" where
  "exampleObject n = replicate n (CHR ''x'')"

definition exampleSizeMismatch :: jserror where
  "exampleSizeMismatch =
     \<lparr>code = Some ''IncorrectSize'', message = ''size of the input stream is not as declared'',
      details = []\<rparr>"

definition exampleStore :: "string option \<Rightarrow> (nat, string) multipart" where
  "exampleStore found =
     \<lparr>doPutObject = (\<lambda>b obj ct u n d s. (Inr ''etag-of-single-put'', Suc s)),
      findUploadId = (\<lambda>b obj s. (Inr found, Suc s)),
      listAllParts = (\<lambda>b obj u s. (Inr [''etag-of-part-1''], Suc s)),
      initiateNewMultipartUpload = (\<lambda>b obj ct s. (Inr (Some ''upload-1''), Suc s)),
      uploadChunks =
        (\<lambda>b obj ct u etags partSize sz stream s.
           case concater stream of
             Inl e \<Rightarrow> (Inl e, s)
           | Inr data \<Rightarrow>
               if int (length data) \<noteq> sz then (Inl exampleSizeMismatch, Suc s)
               else (Inr (etags @ replicate (nat (partCount sz partSize) - length etags)
                                    ''etag-of-new-part''), Suc s)),
      completeMultipartUpload = (\<lambda>b obj u etags s. (Inr ''etag-of-object'', Suc s))\<rparr>"

definition playClient :: client where
  "playClient = newClient ''play.example.com'' 9000 ''http:'' ''key'' ''secret'' ''Minio'' Http True"

definition amazonClient :: client where
  "amazonClient = newClient ''s3.amazonaws.com'' 443 ''https:'' ''key'' ''secret'' ''Minio'' Https False"

definition objectOpts :: "string \<Rightarrow> string \<Rightarrow> opts" where
  "objectOpts b obj =
     \<lparr>optMethod = ''GET'', bucketName = Some b, objectName = Some obj, optHeaders = None,
      query = None\<rparr>"

definition textResponse :: "nat \<Rightarrow> string \<Rightarrow> response" where
  "textResponse status text =
     \<lparr>statusCode = status, headers = [], body = Readable [text] None\<rparr>"

section \<open>Properties\<close>

subsection \<open>Request addressing\<close>

lemma truthy_Some [simp]: "truthy (Some s) = (s \<noteq> [])"
  by (simp add: truthy_def)

lemma truthy_None [simp]: "\<not> truthy None"
  by (simp add: truthy_def)

lemma interpolate_Some [simp]: "interpolate (Some s) = s"
  by (simp add: interpolate_def)

lemma getRequestOptions_path_style:
  assumes "minioStorage c"
  shows "reqHost (getRequestOptions D c options) = host (params c)"
    and "\<not> truthy (bucketName options) \<Longrightarrow> \<not> truthy (objectName options)
         \<Longrightarrow> path (getRequestOptions D c options) = ''/'' @ querySuffix (query options)"
    and "bucketName options = Some b \<Longrightarrow> b \<noteq> [] \<Longrightarrow> \<not> truthy (objectName options)
         \<Longrightarrow> path (getRequestOptions D c options) = ''/'' @ b @ querySuffix (query options)"
    and "bucketName options = Some b \<Longrightarrow> b \<noteq> [] \<Longrightarrow> objectName options = Some obj
         \<Longrightarrow> obj \<noteq> [] \<Longrightarrow> uriResourceEscape D obj \<noteq> []
         \<Longrightarrow> path (getRequestOptions D c options)
             = ''/'' @ b @ ''/'' @ uriResourceEscape D obj @ querySuffix (query options)"
  using assms by (simp_all add: getRequestOptions_def Let_def querySuffix_def)

lemma getRequestOptions_virtual_host_style:
  assumes "\<not> minioStorage c"
  shows "bucketName options = Some b \<Longrightarrow> b \<noteq> []
         \<Longrightarrow> reqHost (getRequestOptions D c options) = b @ ''.'' @ host (params c)"
    and "\<not> truthy (bucketName options)
         \<Longrightarrow> reqHost (getRequestOptions D c options) = host (params c)"
    and "objectName options = Some obj \<Longrightarrow> obj \<noteq> []
         \<Longrightarrow> path (getRequestOptions D c options)
             = ''/'' @ uriResourceEscape D obj @ querySuffix (query options)"
    and "\<not> truthy (objectName options)
         \<Longrightarrow> path (getRequestOptions D c options) = ''/'' @ querySuffix (query options)"
    and "path (getRequestOptions D c (options\<lparr>bucketName := anyBucket\<rparr>))
           = path (getRequestOptions D c options)"
  using assms by (simp_all add: getRequestOptions_def Let_def querySuffix_def)

text \<open>
  C2. Addressing of a request descriptor built by \<open>getRequestOptions\<close>. On a
  self-hosted (path-style) client the host is the configured host and the path is
  \<open>/\<close>, then the bucket, then \<open>/\<close> and the escaped object key, as far as they are
  present. On an Amazon (virtual-host-style) client the host is the bucket, a dot and
  the configured host when a bucket is present, and the path is \<open>/\<close> followed by the
  escaped object key: it does not depend on the bucket. In both modes the query, when
  present, follows the path after \<open>?\<close>. An object key comes with its bucket, and the
  escaped form of a non-empty key is non-empty.
\<close>

theorem getRequestOptions_addressing:
  "(minioStorage c \<longrightarrow>
      reqHost (getRequestOptions D c options) = host (params c)
      \<and> (\<not> truthy (bucketName options) \<and> \<not> truthy (objectName options)
           \<longrightarrow> path (getRequestOptions D c options) = ''/'' @ querySuffix (query options))
      \<and> (\<forall>b. bucketName options = Some b \<and> b \<noteq> [] \<and> \<not> truthy (objectName options)
           \<longrightarrow> path (getRequestOptions D c options) = ''/'' @ b @ querySuffix (query options))
      \<and> (\<forall>b obj. bucketName options = Some b \<and> b \<noteq> [] \<and> objectName options = Some obj
             \<and> obj \<noteq> [] \<and> uriResourceEscape D obj \<noteq> []
           \<longrightarrow> path (getRequestOptions D c options)
               = ''/'' @ b @ ''/'' @ uriResourceEscape D obj @ querySuffix (query options)))
   \<and> (\<not> minioStorage c \<longrightarrow>
      (\<forall>b. bucketName options = Some b \<and> b \<noteq> []
           \<longrightarrow> reqHost (getRequestOptions D c options) = b @ ''.'' @ host (params c))
      \<and> (\<not> truthy (bucketName options)
           \<longrightarrow> reqHost (getRequestOptions D c options) = host (params c))
      \<and> (\<forall>obj. objectName options = Some obj \<and> obj \<noteq> []
           \<longrightarrow> path (getRequestOptions D c options)
               = ''/'' @ uriResourceEscape D obj @ querySuffix (query options))
      \<and> (\<not> truthy (objectName options)
           \<longrightarrow> path (getRequestOptions D c options) = ''/'' @ querySuffix (query options))
      \<and> (\<forall>anyBucket. path (getRequestOptions D c (options\<lparr>bucketName := anyBucket\<rparr>))
           = path (getRequestOptions D c options)))"
proof (intro conjI impI allI)
  assume "minioStorage c"
  then show "reqHost (getRequestOptions D c options) = host (params c)"
    by (rule getRequestOptions_path_style(1))
next
  assume "minioStorage c"
    and "\<not> truthy (bucketName options) \<and> \<not> truthy (objectName options)"
  then show "path (getRequestOptions D c options) = ''/'' @ querySuffix (query options)"
    by (simp add: getRequestOptions_path_style(2))
next
  fix b
  assume "minioStorage c"
    and "bucketName options = Some b \<and> b \<noteq> [] \<and> \<not> truthy (objectName options)"
  then show "path (getRequestOptions D c options) = ''/'' @ b @ querySuffix (query options)"
    by (simp add: getRequestOptions_path_style(3))
next
  fix b obj
  assume "minioStorage c"
    and "bucketName options = Some b \<and> b \<noteq> [] \<and> objectName options = Some obj
             \<and> obj \<noteq> [] \<and> uriResourceEscape D obj \<noteq> []"
  then show "path (getRequestOptions D c options)
               = ''/'' @ b @ ''/'' @ uriResourceEscape D obj @ querySuffix (query options)"
    by (simp add: getRequestOptions_path_style(4))
next
  fix b
  assume "\<not> minioStorage c" and "bucketName options = Some b \<and> b \<noteq> []"
  then show "reqHost (getRequestOptions D c options) = b @ ''.'' @ host (params c)"
    by (simp add: getRequestOptions_virtual_host_style(1))
next
  assume "\<not> minioStorage c" and "\<not> truthy (bucketName options)"
  then show "reqHost (getRequestOptions D c options) = host (params c)"
    by (simp add: getRequestOptions_virtual_host_style(2))
next
  fix obj
  assume "\<not> minioStorage c" and "objectName options = Some obj \<and> obj \<noteq> []"
  then show "path (getRequestOptions D c options)
               = ''/'' @ uriResourceEscape D obj @ querySuffix (query options)"
    by (simp add: getRequestOptions_virtual_host_style(3))
next
  assume "\<not> minioStorage c" and "\<not> truthy (objectName options)"
  then show "path (getRequestOptions D c options) = ''/'' @ querySuffix (query options)"
    by (simp add: getRequestOptions_virtual_host_style(4))
next
  fix anyBucket
  assume "\<not> minioStorage c"
  then show "path (getRequestOptions D c (options\<lparr>bucketName := anyBucket\<rparr>))
           = path (getRequestOptions D c options)"
    by (rule getRequestOptions_virtual_host_style(5))
qed

theorem getRequestOptions_addressing_witness:
  "minioStorage playClient
   \<and> reqHost (getRequestOptions exampleDeps playClient (objectOpts ''mybucket'' ''some key.txt''))
       = ''play.example.com''
   \<and> path (getRequestOptions exampleDeps playClient (objectOpts ''mybucket'' ''some key.txt''))
       = ''/mybucket/some%20key.txt''
   \<and> \<not> minioStorage amazonClient
   \<and> reqHost (getRequestOptions exampleDeps amazonClient (objectOpts ''examplebucket'' ''test.txt''))
       = ''examplebucket.s3.amazonaws.com''
   \<and> path (getRequestOptions exampleDeps amazonClient (objectOpts ''examplebucket'' ''test.txt''))
       = ''/test.txt''"
proof -
  have play: "minioStorage playClient" "host (params playClient) = ''play.example.com''"
    by (simp_all add: playClient_def newClient_def)
  have amazon: "\<not> minioStorage amazonClient" "host (params amazonClient) = ''s3.amazonaws.com''"
    by (simp_all add: amazonClient_def newClient_def)
  have esc: "uriResourceEscape exampleDeps ''some key.txt'' = ''some%20key.txt''"
    "uriResourceEscape exampleDeps ''test.txt'' = ''test.txt''"
    by (simp_all add: exampleDeps_def spec_uriResourceEscape_def unreserved_def percentEncode_def)
  have opts: "bucketName (objectOpts b obj) = Some b" "objectName (objectOpts b obj) = Some obj"
    "query (objectOpts b obj) = None" for b obj
    by (simp_all add: objectOpts_def)
  from getRequestOptions_addressing
    [of playClient exampleDeps "objectOpts ''mybucket'' ''some key.txt''"]
    getRequestOptions_addressing
    [of amazonClient exampleDeps "objectOpts ''examplebucket'' ''test.txt''"]
  show ?thesis
    using play amazon by (simp add: esc opts querySuffix_def)
qed


subsection \<open>Construction\<close>

lemma regex_match_here: "matches_to_end p s \<Longrightarrow> regex_match p s"
  by (cases s) simp_all

lemma regex_match_append: "matches_to_end p s \<Longrightarrow> regex_match p (pre @ s)"
  by (induction pre) (simp_all add: regex_match_here)

lemma amazonPattern_dot_suffix: "regex_match amazonPattern (pre @ ''.amazonaws.com'')"
  by (rule regex_match_append) (simp add: amazonPattern_def)

lemma amazonPattern_s3: "regex_match amazonPattern ''s3.amazonaws.com''"
  using amazonPattern_dot_suffix [of "''s3''"] by simp

lemma constructor_rejects:
  assumes "regex_match amazonPattern (hostname parsed)"
    and "hostname parsed \<noteq> ''s3.amazonaws.com''"
  shows "\<exists>msg. constructor rt parsed endPoint ak sk transportArg
           = Inl (InvalidEndPointException msg)"
  using assms by (simp add: constructor_def Let_def)

lemma constructor_mode:
  assumes "constructor rt parsed endPoint ak sk transportArg = Inr c"
  shows "minioStorage c = (\<not> regex_match amazonPattern (hostname parsed))"
    and "host (params c) = hostname parsed"
    and "regionMap c = Map.empty"
  using assms
  by (auto simp add: constructor_def Let_def newClient_def
      split: if_splits option.splits)

lemma constructor_succeeds:
  assumes "endpointAccepted (hostname parsed)"
    and "transportArg \<noteq> None \<or> urlProtocol parsed = Some ''http:''
         \<or> urlProtocol parsed = Some ''https:''"
  shows "\<exists>c. constructor rt parsed endPoint ak sk transportArg = Inr c"
  using assms
  by (auto simp add: constructor_def Let_def endpointAccepted_def split: option.splits)

text \<open>
  C3 (as amended). A hostname that ends in \<open>.amazonaws.com\<close>, that is in
  \<open>amazonaws.com\<close> with at least the dot before it, is accepted only when it is
  \<open>s3.amazonaws.com\<close> exactly: any other one makes the constructor throw
  \<open>InvalidEndPointException\<close>. A client constructed for \<open>s3.amazonaws.com\<close> is
  in virtual-host (Amazon) mode. A client constructed for a hostname that the
  constructor's pattern does not match is a self-hosted, path-style client. For both
  kinds of hostname construction succeeds when a transport is passed or the scheme is
  \<open>http\<close> or \<open>https\<close>.
\<close>

theorem constructor_endpoint:
  "((\<exists>pre. hostname parsed = pre @ ''.amazonaws.com'')
       \<and> hostname parsed \<noteq> ''s3.amazonaws.com''
     \<longrightarrow> (\<exists>msg. constructor rt parsed endPoint ak sk transportArg
                 = Inl (InvalidEndPointException msg)))
   \<and> (hostname parsed = ''s3.amazonaws.com''
     \<longrightarrow> (\<forall>c. constructor rt parsed endPoint ak sk transportArg = Inr c
               \<longrightarrow> \<not> minioStorage c \<and> host (params c) = ''s3.amazonaws.com''))
   \<and> (\<not> regex_match amazonPattern (hostname parsed)
     \<longrightarrow> (\<forall>c. constructor rt parsed endPoint ak sk transportArg = Inr c
               \<longrightarrow> minioStorage c \<and> host (params c) = hostname parsed))
   \<and> ((hostname parsed = ''s3.amazonaws.com'' \<or> \<not> regex_match amazonPattern (hostname parsed))
        \<and> (transportArg \<noteq> None \<or> urlProtocol parsed = Some ''http:''
             \<or> urlProtocol parsed = Some ''https:'')
     \<longrightarrow> (\<exists>c. constructor rt parsed endPoint ak sk transportArg = Inr c))"
proof (intro conjI impI allI)
  assume "(\<exists>pre. hostname parsed = pre @ ''.amazonaws.com'')
       \<and> hostname parsed \<noteq> ''s3.amazonaws.com''"
  then obtain pre where h: "hostname parsed = pre @ ''.amazonaws.com''"
    and ne: "hostname parsed \<noteq> ''s3.amazonaws.com''" by blast
  from h have "regex_match amazonPattern (hostname parsed)"
    by (simp only: amazonPattern_dot_suffix)
  then show "\<exists>msg. constructor rt parsed endPoint ak sk transportArg
                 = Inl (InvalidEndPointException msg)"
    using ne by (rule constructor_rejects)
next
  fix c
  assume h: "hostname parsed = ''s3.amazonaws.com''"
    and c: "constructor rt parsed endPoint ak sk transportArg = Inr c"
  from constructor_mode(1) [OF c]
  have "minioStorage c = (\<not> regex_match amazonPattern ''s3.amazonaws.com'')"
    unfolding h .
  with amazonPattern_s3 show "\<not> minioStorage c" by blast
  from constructor_mode(2) [OF c] h show "host (params c) = ''s3.amazonaws.com''"
    by simp
next
  fix c
  assume h: "\<not> regex_match amazonPattern (hostname parsed)"
    and c: "constructor rt parsed endPoint ak sk transportArg = Inr c"
  from constructor_mode(1) [OF c] h show "minioStorage c" by simp
  from constructor_mode(2) [OF c] show "host (params c) = hostname parsed" .
next
  assume a: "(hostname parsed = ''s3.amazonaws.com''
               \<or> \<not> regex_match amazonPattern (hostname parsed))
        \<and> (transportArg \<noteq> None \<or> urlProtocol parsed = Some ''http:''
             \<or> urlProtocol parsed = Some ''https:'')"
  then have "endpointAccepted (hostname parsed)"
    by (auto simp add: endpointAccepted_def)
  then show "\<exists>c. constructor rt parsed endPoint ak sk transportArg = Inr c"
    using a by (intro constructor_succeeds) simp_all
qed

text \<open>
  The claim as first stated, for every hostname that ends in \<open>amazonaws.com\<close>, fails
  at the bare domain: the pattern \<open>.amazonaws.com$\<close> asks for a character before
  \<open>amazonaws\<close>, so \<open>https://amazonaws.com\<close> is not matched and yields a
  path-style client instead of an exception.
\<close>

theorem constructor_endpoint_counterexample:
  "constructor exampleRuntime (exampleUrl ''https:'' ''amazonaws.com'') ''https://amazonaws.com''
     ''key'' ''secret'' None
   = Inr (newClient ''amazonaws.com'' 443 ''https:'' ''key'' ''secret''
           (libraryAgent exampleRuntime) Https True)"
  by (simp add: constructor_def exampleUrl_def amazonPattern_def Let_def)


theorem constructor_endpoint_witness:
  "(\<exists>msg. constructor exampleRuntime (exampleUrl ''https:'' ''s3-eu-west-1.amazonaws.com'')
            ''https://s3-eu-west-1.amazonaws.com'' ''key'' ''secret'' None
          = Inl (InvalidEndPointException msg))
   \<and> (\<exists>c. constructor exampleRuntime (exampleUrl ''https:'' ''s3.amazonaws.com'')
            ''https://s3.amazonaws.com'' ''key'' ''secret'' None = Inr c
          \<and> \<not> minioStorage c \<and> host (params c) = ''s3.amazonaws.com'')
   \<and> (\<exists>c. constructor exampleRuntime (exampleUrl ''http:'' ''play.example.com'')
            ''http://play.example.com'' ''key'' ''secret'' None = Inr c
          \<and> minioStorage c \<and> host (params c) = ''play.example.com'')"
proof (intro conjI)
  let ?eu = "exampleUrl ''https:'' ''s3-eu-west-1.amazonaws.com''"
  let ?s3 = "exampleUrl ''https:'' ''s3.amazonaws.com''"
  let ?play = "exampleUrl ''http:'' ''play.example.com''"
  have "hostname ?eu = ''s3-eu-west-1'' @ ''.amazonaws.com''"
    by (simp add: exampleUrl_def)
  then have "\<exists>pre. hostname ?eu = pre @ ''.amazonaws.com''"
    by (rule exI [of _ "''s3-eu-west-1''"])
  moreover have "hostname ?eu \<noteq> ''s3.amazonaws.com''"
    by (simp add: exampleUrl_def)
  ultimately have eu: "(\<exists>pre. hostname ?eu = pre @ ''.amazonaws.com'')
      \<and> hostname ?eu \<noteq> ''s3.amazonaws.com''" by (rule conjI)
  show "\<exists>msg. constructor exampleRuntime ?eu
        ''https://s3-eu-west-1.amazonaws.com'' ''key'' ''secret'' None
      = Inl (InvalidEndPointException msg)"
    by (rule constructor_endpoint [where parsed = ?eu, THEN conjunct1, THEN mp, OF eu])
next
  let ?s3 = "exampleUrl ''https:'' ''s3.amazonaws.com''"
  let ?new = "constructor exampleRuntime ?s3 ''https://s3.amazonaws.com'' ''key'' ''secret'' None"
  note inst = constructor_endpoint [where parsed = ?s3 and rt = exampleRuntime
      and endPoint = "''https://s3.amazonaws.com''" and ak = "''key''" and sk = "''secret''"
      and transportArg = None]
  have h: "hostname ?s3 = ''s3.amazonaws.com''" by (simp add: exampleUrl_def)
  have p: "urlProtocol ?s3 = Some ''https:''" by (simp add: exampleUrl_def)
  from h p have "(hostname ?s3 = ''s3.amazonaws.com''
        \<or> \<not> regex_match amazonPattern (hostname ?s3))
      \<and> (None \<noteq> (None :: transport option) \<or> urlProtocol ?s3 = Some ''http:''
           \<or> urlProtocol ?s3 = Some ''https:'')"
    by (intro conjI disjI1 disjI2)
  from inst [THEN conjunct2, THEN conjunct2, THEN conjunct2, THEN mp, OF this]
  obtain c where c: "?new = Inr c" ..
  from inst [THEN conjunct2, THEN conjunct1, THEN mp, OF h, THEN spec, THEN mp, OF c]
  have "?new = Inr c \<and> \<not> minioStorage c \<and> host (params c) = ''s3.amazonaws.com''"
    using c by simp
  then show "\<exists>c. ?new = Inr c \<and> \<not> minioStorage c \<and> host (params c) = ''s3.amazonaws.com''"
    by (rule exI [of _ c])
next
  let ?play = "exampleUrl ''http:'' ''play.example.com''"
  let ?new = "constructor exampleRuntime ?play ''http://play.example.com'' ''key'' ''secret'' None"
  note inst = constructor_endpoint [where parsed = ?play and rt = exampleRuntime
      and endPoint = "''http://play.example.com''" and ak = "''key''" and sk = "''secret''"
      and transportArg = None]
  have h: "\<not> regex_match amazonPattern (hostname ?play)"
    by (simp add: exampleUrl_def amazonPattern_def)
  have hn: "hostname ?play = ''play.example.com''" by (simp add: exampleUrl_def)
  have p: "urlProtocol ?play = Some ''http:''" by (simp add: exampleUrl_def)
  from h p have "(hostname ?play = ''s3.amazonaws.com''
        \<or> \<not> regex_match amazonPattern (hostname ?play))
      \<and> (None \<noteq> (None :: transport option) \<or> urlProtocol ?play = Some ''http:''
           \<or> urlProtocol ?play = Some ''https:'')"
    by (intro conjI disjI1 disjI2)
  from inst [THEN conjunct2, THEN conjunct2, THEN conjunct2, THEN mp, OF this]
  obtain c where c: "?new = Inr c" ..
  from inst [THEN conjunct2, THEN conjunct2, THEN conjunct1, THEN mp, OF h, THEN spec, THEN mp,
      OF c]
  have "minioStorage c" and "host (params c) = hostname ?play"
    by simp_all
  with c hn have "?new = Inr c \<and> minioStorage c \<and> host (params c) = ''play.example.com''"
    by (simp only: simp_thms)
  then show "\<exists>c. ?new = Inr c \<and> minioStorage c \<and> host (params c) = ''play.example.com''"
    by (rule exI [of _ c])
qed


lemma constructor_default_transport:
  assumes "endpointAccepted (hostname parsed)"
  shows "urlProtocol parsed = Some ''http:''
         \<Longrightarrow> constructor rt parsed endPoint ak sk None
             = Inr (newClient (hostname parsed) (defaultedPort (urlPort parsed) 80) ''http:''
                     ak sk (libraryAgent rt) Http
                     (\<not> regex_match amazonPattern (hostname parsed)))"
    and "urlProtocol parsed = Some ''https:''
         \<Longrightarrow> constructor rt parsed endPoint ak sk None
             = Inr (newClient (hostname parsed) (defaultedPort (urlPort parsed) 443) ''https:''
                     ak sk (libraryAgent rt) Https
                     (\<not> regex_match amazonPattern (hostname parsed)))"
    and "urlProtocol parsed \<noteq> Some ''http:'' \<Longrightarrow> urlProtocol parsed \<noteq> Some ''https:''
         \<Longrightarrow> \<exists>msg. constructor rt parsed endPoint ak sk None
                   = Inl (InvalidProtocolException msg)"
  using assms
  by (auto simp add: constructor_def Let_def endpointAccepted_def defaultedPort_def
      split: option.splits)

lemma constructor_given_transport:
  assumes "endpointAccepted (hostname parsed)"
  shows "constructor rt parsed endPoint ak sk (Some t)
         = Inr (newClient (hostname parsed) (case urlPort parsed of None \<Rightarrow> 0 | Some n \<Rightarrow> n) []
                 ak sk (libraryAgent rt) t (\<not> regex_match amazonPattern (hostname parsed)))"
  using assms
  by (auto simp add: constructor_def Let_def endpointAccepted_def)

text \<open>
  C6 (as amended). When the constructor is given no transport and the hostname passes
  the endpoint check: the scheme \<open>http\<close> selects the \<open>http\<close> transport and port 80
  unless the URL gives a non-zero port, \<open>https\<close> selects \<open>https\<close> and port 443
  likewise, and any other scheme makes it throw \<open>InvalidProtocolException\<close>. When a
  transport is passed, the scheme is not looked at: the client gets that transport, an
  empty protocol and the port of the URL, 0 if it has none.
\<close>

theorem constructor_scheme:
  "(endpointAccepted (hostname parsed) \<and> urlProtocol parsed = Some ''http:''
     \<longrightarrow> (\<exists>c. constructor rt parsed endPoint ak sk None = Inr c
              \<and> protocol (params c) = ''http:'' \<and> transport c = Http
              \<and> port (params c) = defaultedPort (urlPort parsed) 80))
   \<and> (endpointAccepted (hostname parsed) \<and> urlProtocol parsed = Some ''https:''
     \<longrightarrow> (\<exists>c. constructor rt parsed endPoint ak sk None = Inr c
              \<and> protocol (params c) = ''https:'' \<and> transport c = Https
              \<and> port (params c) = defaultedPort (urlPort parsed) 443))
   \<and> (endpointAccepted (hostname parsed) \<and> urlProtocol parsed \<noteq> Some ''http:''
        \<and> urlProtocol parsed \<noteq> Some ''https:''
     \<longrightarrow> (\<exists>msg. constructor rt parsed endPoint ak sk None
               = Inl (InvalidProtocolException msg)))
   \<and> (endpointAccepted (hostname parsed)
     \<longrightarrow> (\<exists>c. constructor rt parsed endPoint ak sk (Some t) = Inr c
              \<and> protocol (params c) = [] \<and> transport c = t
              \<and> port (params c) = (case urlPort parsed of None \<Rightarrow> 0 | Some n \<Rightarrow> n)))"
proof (intro conjI impI)
  assume "endpointAccepted (hostname parsed) \<and> urlProtocol parsed = Some ''http:''"
  then show "\<exists>c. constructor rt parsed endPoint ak sk None = Inr c
              \<and> protocol (params c) = ''http:'' \<and> transport c = Http
              \<and> port (params c) = defaultedPort (urlPort parsed) 80"
    by (simp add: constructor_default_transport(1) newClient_def)
next
  assume "endpointAccepted (hostname parsed) \<and> urlProtocol parsed = Some ''https:''"
  then show "\<exists>c. constructor rt parsed endPoint ak sk None = Inr c
              \<and> protocol (params c) = ''https:'' \<and> transport c = Https
              \<and> port (params c) = defaultedPort (urlPort parsed) 443"
    by (simp add: constructor_default_transport(2) newClient_def)
next
  assume "endpointAccepted (hostname parsed) \<and> urlProtocol parsed \<noteq> Some ''http:''
        \<and> urlProtocol parsed \<noteq> Some ''https:''"
  then show "\<exists>msg. constructor rt parsed endPoint ak sk None
               = Inl (InvalidProtocolException msg)"
    by (simp add: constructor_default_transport(3))
next
  assume "endpointAccepted (hostname parsed)"
  then show "\<exists>c. constructor rt parsed endPoint ak sk (Some t) = Inr c
              \<and> protocol (params c) = [] \<and> transport c = t
              \<and> port (params c) = (case urlPort parsed of None \<Rightarrow> 0 | Some n \<Rightarrow> n)"
    by (simp add: constructor_given_transport newClient_def)
qed

text \<open>
  The claim as first stated, for every endpoint URL, fails when a transport is passed:
  \<open>ftp://localhost\<close> is then accepted, with no protocol and no default port.
\<close>

theorem constructor_scheme_counterexample:
  "constructor exampleRuntime (exampleUrl ''ftp:'' ''localhost'') ''ftp://localhost''
     ''key'' ''secret'' (Some Custom)
   = Inr (newClient ''localhost'' 0 [] ''key'' ''secret'' (libraryAgent exampleRuntime)
           Custom True)"
  by (simp add: constructor_def exampleUrl_def amazonPattern_def Let_def)

theorem constructor_scheme_witness:
  "(\<exists>c. constructor exampleRuntime (exampleUrl ''http:'' ''play.example.com'')
            ''http://play.example.com'' ''key'' ''secret'' None = Inr c
          \<and> protocol (params c) = ''http:'' \<and> transport c = Http \<and> port (params c) = 80)
   \<and> (\<exists>c. constructor exampleRuntime (exampleUrl ''https:'' ''s3.amazonaws.com'')
            ''https://s3.amazonaws.com'' ''key'' ''secret'' None = Inr c
          \<and> protocol (params c) = ''https:'' \<and> transport c = Https \<and> port (params c) = 443)
   \<and> (\<exists>msg. constructor exampleRuntime (exampleUrl ''ftp:'' ''localhost'')
            ''ftp://localhost'' ''key'' ''secret'' None = Inl (InvalidProtocolException msg))
   \<and> (\<exists>c. constructor exampleRuntime (exampleUrl ''http:'' ''localhost'')
            ''http://localhost'' ''key'' ''secret'' (Some Custom) = Inr c
          \<and> protocol (params c) = [] \<and> transport c = Custom \<and> port (params c) = 0)"
proof -
  have url: "hostname (exampleUrl scheme h) = h" "urlProtocol (exampleUrl scheme h) = Some scheme"
    "urlPort (exampleUrl scheme h) = None" for scheme h
    by (simp_all add: exampleUrl_def)
  have ok: "endpointAccepted ''play.example.com''" "endpointAccepted ''s3.amazonaws.com''"
    "endpointAccepted ''localhost''"
    by (simp_all add: endpointAccepted_def amazonPattern_def)
  from constructor_scheme
         [where parsed = "exampleUrl ''http:'' ''play.example.com''" and rt = exampleRuntime
            and endPoint = "''http://play.example.com''" and ak = "''key''" and sk = "''secret''"]
       constructor_scheme
         [where parsed = "exampleUrl ''https:'' ''s3.amazonaws.com''" and rt = exampleRuntime
            and endPoint = "''https://s3.amazonaws.com''" and ak = "''key''" and sk = "''secret''"]
       constructor_scheme
         [where parsed = "exampleUrl ''ftp:'' ''localhost''" and rt = exampleRuntime
            and endPoint = "''ftp://localhost''" and ak = "''key''" and sk = "''secret''"]
       constructor_scheme
         [where parsed = "exampleUrl ''http:'' ''localhost''" and rt = exampleRuntime
            and endPoint = "''http://localhost''" and ak = "''key''" and sk = "''secret''"
            and t = Custom]
  show ?thesis
    by (simp add: url ok defaultedPort_def)
qed


subsection \<open>Response dispatch\<close>

lemma getBucketRegion_no_bucket:
  "getBucketRegion D c None rep = (Inr ''us-east-1'', c, [])"
  by (simp add: getBucketRegion_def getBucketRegion_start_def)

lemma getBucketRegion_self_hosted:
  "host (params c) \<noteq> ''s3.amazonaws.com''
   \<Longrightarrow> getBucketRegion D c bucket rep = (Inr ''us-east-1'', c, [])"
  by (simp add: getBucketRegion_def getBucketRegion_start_def)

lemma makeRequest_answered:
  assumes "getBucketRegion D c (bucketName options) regionReply = (Inr region, c', sent)"
  shows "makeRequest D c options payload expected regionReply (Response r)
         = (makeRequest_response D expected r, c',
            sent @ [(getRequestOptions D c options, region)])"
    and "makeRequest D c options payload expected regionReply (NetworkError e)
         = (Inl e, c', sent @ [(getRequestOptions D c options, region)])"
  using assms by (simp_all add: makeRequest_def Let_def)

lemma makeRequest_region_failed:
  assumes "getBucketRegion D c (bucketName options) regionReply = (Inl e, c', sent)"
  shows "makeRequest D c options payload expected regionReply rep = (Inl e, c', sent)"
  using assms by (simp add: makeRequest_def Let_def)

lemma getPartialObject_answered:
  assumes "checkObjectArgs D b obj = None"
    and "getBucketRegion D c (Some b) regionReply = (Inr region, c', sent)"
  shows "statusCode r = 200 \<or> statusCode r = 206
         \<Longrightarrow> getPartialObject D c b obj offset len True regionReply (Response r)
             = Inr (Inr (body r), c',
                    sent @ [(getRequestOptions D c (getPartialObject_options b obj offset len),
                             region)])"
    and "statusCode r \<noteq> 200 \<Longrightarrow> statusCode r \<noteq> 206
         \<Longrightarrow> getPartialObject D c b obj offset len True regionReply (Response r)
             = Inr (Inl (errorPipeline D r), c',
                    sent @ [(getRequestOptions D c (getPartialObject_options b obj offset len),
                             region)])"
proof -
  have b: "bucketName (getPartialObject_options b obj offset len) = Some b"
    by (simp add: getPartialObject_options_def Let_def)
  from assms(2) have g: "getBucketRegion D c
      (bucketName (getPartialObject_options b obj offset len)) regionReply
      = (Inr region, c', sent)"
    by (simp only: b)
  show "statusCode r = 200 \<or> statusCode r = 206
         \<Longrightarrow> getPartialObject D c b obj offset len True regionReply (Response r)
             = Inr (Inr (body r), c',
                    sent @ [(getRequestOptions D c (getPartialObject_options b obj offset len),
                             region)])"
    using assms(1)
    by (auto simp add: getPartialObject_def makeRequest_answered(1) [OF g]
        makeRequest_response_def getPartialObject_callback_def)
  show "statusCode r \<noteq> 200 \<Longrightarrow> statusCode r \<noteq> 206
         \<Longrightarrow> getPartialObject D c b obj offset len True regionReply (Response r)
             = Inr (Inl (errorPipeline D r), c',
                    sent @ [(getRequestOptions D c (getPartialObject_options b obj offset len),
                             region)])"
    using assms(1)
    by (auto simp add: getPartialObject_def makeRequest_answered(1) [OF g]
        makeRequest_response_def getPartialObject_callback_def)
qed

text \<open>
  C4 (as amended). A response to a request issued by \<open>makeRequest\<close> with a non-zero
  expected status goes to the success path when its status equals the expected one and
  otherwise through the error parser, whose error the caller receives. An expected
  status of 0 switches the check off: every response goes to the success path,
  whatever its status. For a GET of an object (\<open>getPartialObject\<close>, which passes 0
  and checks the status in its own callback) statuses 200 and 206 deliver the body
  stream, and every other status goes through the error parser.
\<close>

theorem makeRequest_dispatch:
  "(expected \<noteq> 0 \<and> statusCode r = expected \<longrightarrow> makeRequest_response D expected r = Inr r)
   \<and> (expected \<noteq> 0 \<and> statusCode r \<noteq> expected
        \<longrightarrow> makeRequest_response D expected r = Inl (errorPipeline D r))
   \<and> makeRequest_response D 0 r = Inr r
   \<and> (statusCode r = 200 \<or> statusCode r = 206
        \<longrightarrow> getPartialObject_callback D (makeRequest_response D 0 r) = Inr (body r))
   \<and> (statusCode r \<noteq> 200 \<and> statusCode r \<noteq> 206
        \<longrightarrow> getPartialObject_callback D (makeRequest_response D 0 r) = Inl (errorPipeline D r))
   \<and> (\<forall>region c' sent.
         getBucketRegion D c (bucketName options) regionReply = (Inr region, c', sent)
         \<longrightarrow> fst (makeRequest D c options payload expected regionReply (Response r))
             = makeRequest_response D expected r)
   \<and> (\<forall>region c' sent.
         checkObjectArgs D b obj = None
         \<and> getBucketRegion D c (Some b) regionReply = (Inr region, c', sent)
         \<and> (statusCode r = 200 \<or> statusCode r = 206)
         \<longrightarrow> getPartialObject D c b obj offset len True regionReply (Response r)
             = Inr (Inr (body r), c',
                    sent @ [(getRequestOptions D c (getPartialObject_options b obj offset len),
                             region)]))
   \<and> (\<forall>region c' sent.
         checkObjectArgs D b obj = None
         \<and> getBucketRegion D c (Some b) regionReply = (Inr region, c', sent)
         \<and> statusCode r \<noteq> 200 \<and> statusCode r \<noteq> 206
         \<longrightarrow> getPartialObject D c b obj offset len True regionReply (Response r)
             = Inr (Inl (errorPipeline D r), c',
                    sent @ [(getRequestOptions D c (getPartialObject_options b obj offset len),
                             region)]))"
proof (intro conjI impI allI)
  fix region c' sent
  assume "getBucketRegion D c (bucketName options) regionReply = (Inr region, c', sent)"
  then show "fst (makeRequest D c options payload expected regionReply (Response r))
             = makeRequest_response D expected r"
    by (simp add: makeRequest_answered(1))
next
  fix region c' sent
  assume "checkObjectArgs D b obj = None
         \<and> getBucketRegion D c (Some b) regionReply = (Inr region, c', sent)
         \<and> (statusCode r = 200 \<or> statusCode r = 206)"
  then show "getPartialObject D c b obj offset len True regionReply (Response r)
             = Inr (Inr (body r), c',
                    sent @ [(getRequestOptions D c (getPartialObject_options b obj offset len),
                             region)])"
    by (intro getPartialObject_answered(1)) simp_all
next
  fix region c' sent
  assume "checkObjectArgs D b obj = None
         \<and> getBucketRegion D c (Some b) regionReply = (Inr region, c', sent)
         \<and> statusCode r \<noteq> 200 \<and> statusCode r \<noteq> 206"
  then show "getPartialObject D c b obj offset len True regionReply (Response r)
             = Inr (Inl (errorPipeline D r), c',
                    sent @ [(getRequestOptions D c (getPartialObject_options b obj offset len),
                             region)])"
    by (intro getPartialObject_answered(2)) simp_all
qed (auto simp add: makeRequest_response_def getPartialObject_callback_def)

text \<open>
  The claim as first stated has an expected status of 0 accept exactly the 2xx and 3xx
  statuses. \<open>makeRequest\<close> hands a 404 response to its callback as a success when the
  expected status is 0.
\<close>

theorem makeRequest_dispatch_counterexample:
  "fst (makeRequest exampleDeps playClient (objectOpts ''mybucket'' ''missing'') [] 0
         (Response (textResponse 404 ''NoSuchKey: The specified key does not exist.''))
         (Response (textResponse 404 ''NoSuchKey: The specified key does not exist.'')))
   = Inr (textResponse 404 ''NoSuchKey: The specified key does not exist.'')"
proof -
  have "host (params playClient) \<noteq> ''s3.amazonaws.com''"
    by (simp add: playClient_def newClient_def)
  then show ?thesis
    by (simp add: makeRequest_def Let_def getBucketRegion_self_hosted makeRequest_response_def)
qed

theorem makeRequest_dispatch_witness:
  "makeRequest_response exampleDeps 204 (textResponse 204 []) = Inr (textResponse 204 [])
   \<and> makeRequest_response exampleDeps 200 (textResponse 403 ''AccessDenied: Access Denied'')
       = Inl \<lparr>code = Some ''AccessDenied'', message = ''Access Denied'', details = []\<rparr>
   \<and> getPartialObject_callback exampleDeps
         (makeRequest_response exampleDeps 0 (textResponse 206 ''partial''))
       = Inr (Readable [''partial''] None)
   \<and> getPartialObject_callback exampleDeps
         (makeRequest_response exampleDeps 0 (textResponse 404 ''NoSuchKey: none''))
       = Inl \<lparr>code = Some ''NoSuchKey'', message = ''none'', details = []\<rparr>
   \<and> fst (makeRequest exampleDeps playClient (objectOpts ''mybucket'' ''key'') [] 200
           (Response (textResponse 200 [])) (Response (textResponse 200 ''data'')))
       = Inr (textResponse 200 ''data'')
   \<and> getPartialObject exampleDeps playClient ''mybucket'' ''key'' 2 7 True
         (Response (textResponse 200 [])) (Response (textResponse 206 ''partial''))
       = Inr (Inr (Readable [''partial''] None), playClient,
              [(getRequestOptions exampleDeps playClient
                  (getPartialObject_options ''mybucket'' ''key'' 2 7), ''us-east-1'')])
   \<and> getPartialObject exampleDeps playClient ''mybucket'' ''key'' 0 0 True
         (Response (textResponse 200 [])) (Response (textResponse 404 ''NoSuchKey: none''))
       = Inr (Inl \<lparr>code = Some ''NoSuchKey'', message = ''none'', details = []\<rparr>, playClient,
              [(getRequestOptions exampleDeps playClient
                  (getPartialObject_options ''mybucket'' ''key'' 0 0), ''us-east-1'')])"
proof (intro conjI)
  have status: "statusCode (textResponse n t) = n" "body (textResponse n t) = Readable [t] None"
    for n t by (simp_all add: textResponse_def)
  have err: "errorPipeline exampleDeps (textResponse 403 ''AccessDenied: Access Denied'')
      = \<lparr>code = Some ''AccessDenied'', message = ''Access Denied'', details = []\<rparr>"
    "errorPipeline exampleDeps (textResponse 404 ''NoSuchKey: none'')
      = \<lparr>code = Some ''NoSuchKey'', message = ''none'', details = []\<rparr>"
    by (simp_all add: errorPipeline_def exampleDeps_def exampleError_def concater_def
        textResponse_def)
  show "makeRequest_response exampleDeps 204 (textResponse 204 []) = Inr (textResponse 204 [])"
    using makeRequest_dispatch
      [where expected = 204 and r = "textResponse 204 []" and D = exampleDeps, THEN conjunct1]
    by (simp add: status)
  show "makeRequest_response exampleDeps 200 (textResponse 403 ''AccessDenied: Access Denied'')
       = Inl \<lparr>code = Some ''AccessDenied'', message = ''Access Denied'', details = []\<rparr>"
    using makeRequest_dispatch
      [where expected = 200 and r = "textResponse 403 ''AccessDenied: Access Denied''"
        and D = exampleDeps, THEN conjunct2, THEN conjunct1]
    by (simp add: status err)
  show "getPartialObject_callback exampleDeps
         (makeRequest_response exampleDeps 0 (textResponse 206 ''partial''))
       = Inr (Readable [''partial''] None)"
    using makeRequest_dispatch
      [where r = "textResponse 206 ''partial''" and D = exampleDeps,
        THEN conjunct2, THEN conjunct2, THEN conjunct2, THEN conjunct1]
    by (simp only: status simp_thms)
  show "getPartialObject_callback exampleDeps
         (makeRequest_response exampleDeps 0 (textResponse 404 ''NoSuchKey: none''))
       = Inl \<lparr>code = Some ''NoSuchKey'', message = ''none'', details = []\<rparr>"
    using makeRequest_dispatch
      [where r = "textResponse 404 ''NoSuchKey: none''" and D = exampleDeps,
        THEN conjunct2, THEN conjunct2, THEN conjunct2, THEN conjunct2, THEN conjunct1]
    by (simp add: status err)
  have region: "getBucketRegion exampleDeps playClient
      (bucketName (objectOpts ''mybucket'' ''key'')) (Response (textResponse 200 []))
      = (Inr ''us-east-1'', playClient, [])"
    by (rule getBucketRegion_self_hosted) (simp add: playClient_def newClient_def)
  have "fst (makeRequest exampleDeps playClient (objectOpts ''mybucket'' ''key'') [] 200
           (Response (textResponse 200 [])) (Response (textResponse 200 ''data'')))
       = makeRequest_response exampleDeps 200 (textResponse 200 ''data'')"
    by (rule makeRequest_dispatch
      [where expected = 200 and r = "textResponse 200 ''data''" and D = exampleDeps
        and c = playClient and options = "objectOpts ''mybucket'' ''key''"
        and regionReply = "Response (textResponse 200 [])" and payload = "[]",
        THEN conjunct2, THEN conjunct2, THEN conjunct2, THEN conjunct2, THEN conjunct2,
        THEN conjunct1, THEN spec, THEN spec, THEN spec, THEN mp, OF region])
  also have "\<dots> = Inr (textResponse 200 ''data'')"
    using makeRequest_dispatch
      [where expected = 200 and r = "textResponse 200 ''data''" and D = exampleDeps,
        THEN conjunct1]
    by (simp add: status)
  finally show "fst (makeRequest exampleDeps playClient (objectOpts ''mybucket'' ''key'') [] 200
           (Response (textResponse 200 [])) (Response (textResponse 200 ''data'')))
       = Inr (textResponse 200 ''data'')" .
  have args: "checkObjectArgs exampleDeps ''mybucket'' ''key'' = None"
    by (simp add: checkObjectArgs_def exampleDeps_def trimIsEmpty_def isWhiteSpace_def)
  have lookup: "getBucketRegion exampleDeps playClient (Some ''mybucket'')
      (Response (textResponse 200 [])) = (Inr ''us-east-1'', playClient, [])"
    by (rule getBucketRegion_self_hosted) (simp add: playClient_def newClient_def)
  have partial: "statusCode (textResponse 206 ''partial'') = 200
      \<or> statusCode (textResponse 206 ''partial'') = 206"
    by (simp add: status)
  have missing: "statusCode (textResponse 404 ''NoSuchKey: none'') \<noteq> 200
      \<and> statusCode (textResponse 404 ''NoSuchKey: none'') \<noteq> 206"
    by (simp add: status)
  from makeRequest_dispatch
      [where r = "textResponse 206 ''partial''" and D = exampleDeps and c = playClient
        and b = "''mybucket''" and obj = "''key''" and offset = 2 and len = 7
        and regionReply = "Response (textResponse 200 [])",
        THEN conjunct2, THEN conjunct2, THEN conjunct2, THEN conjunct2, THEN conjunct2,
        THEN conjunct2, THEN conjunct1, THEN spec, THEN spec, THEN spec, THEN mp,
        OF conjI [OF args conjI [OF lookup partial]]]
  show "getPartialObject exampleDeps playClient ''mybucket'' ''key'' 2 7 True
         (Response (textResponse 200 [])) (Response (textResponse 206 ''partial''))
       = Inr (Inr (Readable [''partial''] None), playClient,
              [(getRequestOptions exampleDeps playClient
                  (getPartialObject_options ''mybucket'' ''key'' 2 7), ''us-east-1'')])"
    by (simp add: status)
  from makeRequest_dispatch
      [where r = "textResponse 404 ''NoSuchKey: none''" and D = exampleDeps and c = playClient
        and b = "''mybucket''" and obj = "''key''" and offset = 0 and len = 0
        and regionReply = "Response (textResponse 200 [])",
        THEN conjunct2, THEN conjunct2, THEN conjunct2, THEN conjunct2, THEN conjunct2,
        THEN conjunct2, THEN conjunct2, THEN spec, THEN spec, THEN spec, THEN mp,
        OF conjI [OF args conjI [OF lookup missing]]]
  show "getPartialObject exampleDeps playClient ''mybucket'' ''key'' 0 0 True
         (Response (textResponse 200 [])) (Response (textResponse 404 ''NoSuchKey: none''))
       = Inr (Inl \<lparr>code = Some ''NoSuchKey'', message = ''none'', details = []\<rparr>, playClient,
              [(getRequestOptions exampleDeps playClient
                  (getPartialObject_options ''mybucket'' ''key'' 0 0), ''us-east-1'')])"
    by (simp add: err)
qed


lemma listBuckets_failure:
  assumes "fst (makeRequest D c listBuckets_options [] 200 regionReply rep) = Inl e"
  shows "listBuckets D c True regionReply rep
         = Inr (Inl (listBuckets_error e), c,
                [(getRequestOptions D c listBuckets_options, ''us-east-1'')])"
  using assms
  by (simp add: listBuckets_def makeRequest_def Let_def getBucketRegion_no_bucket
      listBuckets_options_def split: reply.splits sum.splits)

text \<open>
  C9. When the request of \<open>listBuckets\<close> fails with an error whose code is
  \<open>TemporaryRedirect\<close>, the error handed to the caller has the code
  \<open>AccessDenied\<close> and the message \<open>Valid and authorized credentials required\<close>,
  its other fields unchanged; an error with any other code is handed over as it is.
  A response whose status is not 200 fails the request with the error parsed from it.
\<close>

theorem listBuckets_access_denied:
  "(\<forall>e. fst (makeRequest D c listBuckets_options [] 200 regionReply rep) = Inl e
         \<longrightarrow> (\<exists>e' c' sent.
                listBuckets D c True regionReply rep = Inr (Inl e', c', sent)
                \<and> (code e = Some ''TemporaryRedirect''
                     \<longrightarrow> code e' = Some ''AccessDenied''
                         \<and> message e' = ''Valid and authorized credentials required''
                         \<and> details e' = details e)
                \<and> (code e \<noteq> Some ''TemporaryRedirect'' \<longrightarrow> e' = e)))
   \<and> (\<forall>r. rep = Response r \<and> statusCode r \<noteq> 200
         \<longrightarrow> fst (makeRequest D c listBuckets_options [] 200 regionReply rep)
             = Inl (errorPipeline D r))"
proof (intro conjI allI impI)
  fix e
  assume e: "fst (makeRequest D c listBuckets_options [] 200 regionReply rep) = Inl e"
  have "listBuckets D c True regionReply rep
      = Inr (Inl (listBuckets_error e), c,
             [(getRequestOptions D c listBuckets_options, ''us-east-1'')])"
    by (rule listBuckets_failure [OF e])
  moreover have "code e = Some ''TemporaryRedirect''
      \<longrightarrow> code (listBuckets_error e) = Some ''AccessDenied''
          \<and> message (listBuckets_error e) = ''Valid and authorized credentials required''
          \<and> details (listBuckets_error e) = details e"
    by (simp add: listBuckets_error_def)
  moreover have "code e \<noteq> Some ''TemporaryRedirect'' \<longrightarrow> listBuckets_error e = e"
    by (simp add: listBuckets_error_def)
  ultimately show "\<exists>e' c' sent.
                listBuckets D c True regionReply rep = Inr (Inl e', c', sent)
                \<and> (code e = Some ''TemporaryRedirect''
                     \<longrightarrow> code e' = Some ''AccessDenied''
                         \<and> message e' = ''Valid and authorized credentials required''
                         \<and> details e' = details e)
                \<and> (code e \<noteq> Some ''TemporaryRedirect'' \<longrightarrow> e' = e)"
    by blast
next
  fix r
  assume "rep = Response r \<and> statusCode r \<noteq> 200"
  then show "fst (makeRequest D c listBuckets_options [] 200 regionReply rep)
             = Inl (errorPipeline D r)"
    by (auto simp add: makeRequest_def Let_def getBucketRegion_no_bucket
        makeRequest_response_def listBuckets_options_def)
qed

theorem listBuckets_access_denied_witness:
  "(\<exists>e' c' sent.
      listBuckets exampleDeps amazonClient True
        (Response (textResponse 307 ''TemporaryRedirect: Please re-send this request''))
        (Response (textResponse 307 ''TemporaryRedirect: Please re-send this request''))
      = Inr (Inl e', c', sent)
      \<and> code e' = Some ''AccessDenied''
      \<and> message e' = ''Valid and authorized credentials required'')
   \<and> (\<exists>c' sent.
      listBuckets exampleDeps amazonClient True
        (Response (textResponse 403 ''SignatureDoesNotMatch: Check your key''))
        (Response (textResponse 403 ''SignatureDoesNotMatch: Check your key''))
      = Inr (Inl \<lparr>code = Some ''SignatureDoesNotMatch'', message = ''Check your key'',
                  details = []\<rparr>, c', sent))"
proof (intro conjI)
  let ?redirect = "textResponse 307 ''TemporaryRedirect: Please re-send this request''"
  let ?denied = "textResponse 403 ''SignatureDoesNotMatch: Check your key''"
  let ?e1 = "\<lparr>code = Some ''TemporaryRedirect'', message = ''Please re-send this request'',
              details = []\<rparr>"
  let ?e2 = "\<lparr>code = Some ''SignatureDoesNotMatch'', message = ''Check your key'',
              details = []\<rparr>"
  have err: "errorPipeline exampleDeps ?redirect = ?e1" "errorPipeline exampleDeps ?denied = ?e2"
    by (simp_all add: errorPipeline_def exampleDeps_def exampleError_def concater_def
        textResponse_def)
  have status: "statusCode ?redirect \<noteq> 200" "statusCode ?denied \<noteq> 200"
    by (simp_all add: textResponse_def)
  note inst1 = listBuckets_access_denied
    [where D = exampleDeps and c = amazonClient and regionReply = "Response ?redirect"
      and rep = "Response ?redirect"]
  note inst2 = listBuckets_access_denied
    [where D = exampleDeps and c = amazonClient and regionReply = "Response ?denied"
      and rep = "Response ?denied"]
  from inst1 [THEN conjunct2, THEN spec, THEN mp, OF conjI [OF refl status(1)]]
  have "fst (makeRequest exampleDeps amazonClient listBuckets_options [] 200
               (Response ?redirect) (Response ?redirect)) = Inl ?e1"
    by (simp only: err)
  from inst1 [THEN conjunct1, THEN spec, THEN mp, OF this]
  obtain e' c' sent where
    "listBuckets exampleDeps amazonClient True (Response ?redirect) (Response ?redirect)
       = Inr (Inl e', c', sent)"
    "code e' = Some ''AccessDenied''"
    "message e' = ''Valid and authorized credentials required''"
    by auto
  then show "\<exists>e' c' sent.
      listBuckets exampleDeps amazonClient True (Response ?redirect) (Response ?redirect)
      = Inr (Inl e', c', sent)
      \<and> code e' = Some ''AccessDenied''
      \<and> message e' = ''Valid and authorized credentials required''"
    by (intro exI [of _ e'] exI [of _ c'] exI [of _ sent] conjI)
  from inst2 [THEN conjunct2, THEN spec, THEN mp, OF conjI [OF refl status(2)]]
  have "fst (makeRequest exampleDeps amazonClient listBuckets_options [] 200
               (Response ?denied) (Response ?denied)) = Inl ?e2"
    by (simp only: err)
  from inst2 [THEN conjunct1, THEN spec, THEN mp, OF this]
  obtain e' c' sent where
    "listBuckets exampleDeps amazonClient True (Response ?denied) (Response ?denied)
       = Inr (Inl e', c', sent)" "e' = ?e2"
    by auto
  then show "\<exists>c' sent.
      listBuckets exampleDeps amazonClient True (Response ?denied) (Response ?denied)
      = Inr (Inl ?e2, c', sent)"
    by (intro exI [of _ c'] exI [of _ sent]) simp
qed


subsection \<open>The region cache\<close>

lemma getBucketRegion_response_failed:
  "getBucketRegion_response D c b rep = (Inl e, c') \<Longrightarrow> c' = c"
  by (auto simp add: getBucketRegion_response_def Let_def
      split: reply.splits if_splits sum.splits)

lemma getBucketRegion_failed:
  "getBucketRegion D c bucket rep = (Inl e, c', sent) \<Longrightarrow> c' = c"
  by (auto simp add: getBucketRegion_def split: lookup.splits prod.splits
      dest: getBucketRegion_response_failed)

lemma getBucketRegion_response_regionMap:
  "regionMap (snd (getBucketRegion_response D c b rep)) = regionMap c
   \<or> (\<exists>r. r \<noteq> [] \<and> regionMap (snd (getBucketRegion_response D c b rep))
               = (regionMap c)(b \<mapsto> r))"
  by (auto simp add: getBucketRegion_response_def Let_def
      split: reply.splits if_splits sum.splits)

lemma getBucketRegion_response_params:
  "params (snd (getBucketRegion_response D c b rep)) = params c"
  by (auto simp add: getBucketRegion_response_def Let_def
      split: reply.splits if_splits sum.splits)

lemma getBucketRegion_start_cached:
  assumes "host (params c) = ''s3.amazonaws.com''" and "regionMap c b = Some r" and "r \<noteq> []"
    and "b \<noteq> []"
  shows "getBucketRegion_start c (Some b) = Immediate r"
  using assms by (simp add: getBucketRegion_start_def)

lemma getBucketRegion_start_issued:
  assumes "getBucketRegion_start c bucket = Issued b req"
  shows "\<not> truthy (regionMap c b)"
  using assms
  by (auto simp add: getBucketRegion_start_def split: if_splits option.splits)

lemma step_regionMap:
  assumes "step D (c, inflight) ev = (c', inflight')"
  shows "regionMap c' = regionMap c
         \<or> (\<exists>b r. b \<in> set inflight \<and> r \<noteq> [] \<and> regionMap c' = (regionMap c)(b \<mapsto> r))"
proof (cases ev)
  case (Lookup bucket)
  with assms show ?thesis by (auto split: lookup.splits)
next
  case (Answer b rep)
  show ?thesis
  proof (cases "b \<in> set inflight")
    case True
    with assms Answer have "c' = snd (getBucketRegion_response D c b rep)" by auto
    with getBucketRegion_response_regionMap [of D c b rep] True show ?thesis by auto
  next
    case False
    with assms Answer show ?thesis by auto
  qed
next
  case (SetAppInfo n v)
  with assms show ?thesis by (auto simp add: setAppInfo_def split: if_splits)
qed

lemma step_nonEmpty:
  assumes "step D (c, inflight) ev = (c', inflight')" and "cacheRegionsNonEmpty c"
  shows "cacheRegionsNonEmpty c'"
  unfolding cacheRegionsNonEmpty_def
proof (intro allI impI)
  fix b r
  assume entry: "regionMap c' b = Some r"
  from assms(2) have old: "regionMap c b = Some r \<Longrightarrow> r \<noteq> []"
    by (simp add: cacheRegionsNonEmpty_def)
  from step_regionMap [OF assms(1)] show "r \<noteq> []"
  proof
    assume "regionMap c' = regionMap c"
    with entry old show ?thesis by simp
  next
    assume "\<exists>b r. b \<in> set inflight \<and> r \<noteq> [] \<and> regionMap c' = (regionMap c)(b \<mapsto> r)"
    then obtain b' r' where "r' \<noteq> []" "regionMap c' = (regionMap c)(b' \<mapsto> r')"
      by blast
    with entry old show ?thesis by (cases "b = b'") simp_all
  qed
qed

lemma step_dom:
  assumes "step D (c, inflight) ev = (c', inflight')"
  shows "dom (regionMap c) \<subseteq> dom (regionMap c')"
  using step_regionMap [OF assms] by auto

lemma step_inflight:
  assumes "step D (c, inflight) ev = (c', inflight')"
    and "cacheRegionsNonEmpty c" and "regionMap c b = Some r" and "b \<notin> set inflight"
  shows "b \<notin> set inflight'"
proof (cases ev)
  case (Lookup bucket)
  show ?thesis
  proof (cases "getBucketRegion_start c bucket")
    case (Immediate region)
    with assms(1,4) Lookup show ?thesis by auto
  next
    case (Issued b' req)
    from getBucketRegion_start_issued [OF Issued] assms(2,3) have "b' \<noteq> b"
      by (auto simp add: cacheRegionsNonEmpty_def)
    with assms(1,4) Lookup Issued show ?thesis by auto
  qed
next
  case (Answer b' rep)
  with assms(1,4) show ?thesis
    by (auto split: if_splits dest: notin_set_remove1)
next
  case (SetAppInfo n v)
  with assms(1,4) show ?thesis by (auto split: if_splits)
qed

lemma step_keeps_entry:
  assumes "step D (c, inflight) ev = (c', inflight')"
    and "regionMap c b = Some r" and "b \<notin> set inflight"
  shows "regionMap c' b = Some r"
  using step_regionMap [OF assms(1)] assms(2,3) by auto

lemma run_Nil: "run D st [] = st"
  by (simp add: run_def)

lemma run_Cons: "run D st (ev # es) = run D (step D st ev) es"
  by (simp add: run_def)

lemma run_append: "run D st (es @ es') = run D (run D st es) es'"
  by (simp add: run_def)

lemma run_nonEmpty:
  "run D (c, inflight) es = (c', inflight') \<Longrightarrow> cacheRegionsNonEmpty c
   \<Longrightarrow> cacheRegionsNonEmpty c'"
proof (induction es arbitrary: c inflight)
  case Nil
  then show ?case by (simp add: run_Nil)
next
  case (Cons ev es)
  obtain c1 i1 where s: "step D (c, inflight) ev = (c1, i1)"
    by (cases "step D (c, inflight) ev") auto
  from Cons.prems(1) s have "run D (c1, i1) es = (c', inflight')" by (simp add: run_Cons)
  moreover from step_nonEmpty [OF s Cons.prems(2)] have "cacheRegionsNonEmpty c1" .
  ultimately show ?case by (rule Cons.IH)
qed

lemma run_dom:
  "run D (c, inflight) es = (c', inflight') \<Longrightarrow> dom (regionMap c) \<subseteq> dom (regionMap c')"
proof (induction es arbitrary: c inflight)
  case Nil
  then show ?case by (simp add: run_Nil)
next
  case (Cons ev es)
  obtain c1 i1 where s: "step D (c, inflight) ev = (c1, i1)"
    by (cases "step D (c, inflight) ev") auto
  from Cons.prems s have "run D (c1, i1) es = (c', inflight')" by (simp add: run_Cons)
  from Cons.IH [OF this] step_dom [OF s] show ?case by blast
qed

lemma run_keeps_entry:
  "run D (c, inflight) es = (c', inflight') \<Longrightarrow> cacheRegionsNonEmpty c
   \<Longrightarrow> regionMap c b = Some r \<Longrightarrow> b \<notin> set inflight
   \<Longrightarrow> regionMap c' b = Some r"
proof (induction es arbitrary: c inflight)
  case Nil
  then show ?case by (simp add: run_Nil)
next
  case (Cons ev es)
  obtain c1 i1 where s: "step D (c, inflight) ev = (c1, i1)"
    by (cases "step D (c, inflight) ev") auto
  from Cons.prems(1) s have r: "run D (c1, i1) es = (c', inflight')" by (simp add: run_Cons)
  have "cacheRegionsNonEmpty c1" by (rule step_nonEmpty [OF s Cons.prems(2)])
  moreover have "regionMap c1 b = Some r"
    by (rule step_keeps_entry [OF s Cons.prems(3,4)])
  moreover have "b \<notin> set i1"
    by (rule step_inflight [OF s Cons.prems(2,3,4)])
  ultimately show ?case by (rule Cons.IH [OF r])
qed

lemma fresh_nonEmpty: "regionMap c = Map.empty \<Longrightarrow> cacheRegionsNonEmpty c"
  by (simp add: cacheRegionsNonEmpty_def)

lemma getBucketRegion_response_cases:
  "getBucketRegion_response D c b (NetworkError e) = (Inl e, c)"
  "statusCode r \<noteq> 200
   \<Longrightarrow> getBucketRegion_response D c b (Response r) = (Inl (errorPipeline D r), c)"
  "statusCode r = 200 \<Longrightarrow> concater (body r) = Inl e
   \<Longrightarrow> getBucketRegion_response D c b (Response r) = (Inl e, c)"
  "statusCode r = 200 \<Longrightarrow> concater (body r) = Inr xml
   \<Longrightarrow> bucketRegionTransformer D xml = Inl e
   \<Longrightarrow> getBucketRegion_response D c b (Response r) = (Inl e, c)"
  "statusCode r = 200 \<Longrightarrow> concater (body r) = Inr xml
   \<Longrightarrow> bucketRegionTransformer D xml = Inr region
   \<Longrightarrow> getBucketRegion_response D c b (Response r)
       = (Inr (if region = [] then ''us-east-1'' else region),
          c\<lparr>regionMap := (regionMap c)(b \<mapsto> (if region = [] then ''us-east-1'' else region))\<rparr>)"
  by (simp_all add: getBucketRegion_response_def Let_def)

lemma getBucketRegion_issued:
  assumes "getBucketRegion_start c bucket = Issued b req"
  shows "getBucketRegion D c bucket rep
         = (fst (getBucketRegion_response D c b rep), snd (getBucketRegion_response D c b rep),
            [(req, ''us-east-1'')])"
  using assms by (simp add: getBucketRegion_def split: prod.splits)

lemma amazonClient_fields:
  "host (params amazonClient) = ''s3.amazonaws.com''" "regionMap amazonClient = Map.empty"
  by (simp_all add: amazonClient_def newClient_def)

lemma example_location:
  "getBucketRegion_response exampleDeps c b (Response (textResponse 200 region))
   = (Inr (if region = [] then ''us-east-1'' else region),
      c\<lparr>regionMap := (regionMap c)(b \<mapsto> (if region = [] then ''us-east-1'' else region))\<rparr>)"
  by (simp add: getBucketRegion_response_def textResponse_def concater_def exampleDeps_def
      Let_def)

text \<open>
  C5 (as amended). Take a client whose cache starts empty, as the constructor leaves it,
  and any sequence of region lookups, transport answers and \<open>setAppInfo\<close> calls. Once
  a bucket is mapped to a region and no location request for that bucket is in flight,
  no further sequence of such events changes or removes the entry. No event ever
  removes an entry. A lookup fails when the transport reports an error, when the status
  of the answer is not 200, or when the body or its parsing fails: the caller then
  receives that error (the transport's, or the one parsed from the response), also
  through \<open>makeRequest\<close>, and the client, with its cache, is unchanged. Only an answer
  with status 200 that parses stores a region, \<open>us-east-1\<close> for an empty one, under
  the bucket of the request.
\<close>

theorem regionMap_monotonic:
  "(regionMap c0 = Map.empty \<and> run D (c0, []) es = (c1, inflight1)
      \<and> regionMap c1 b = Some r \<and> b \<notin> set inflight1
      \<and> run D (c1, inflight1) es' = (c2, inflight2)
     \<longrightarrow> regionMap c2 b = Some r)
   \<and> (run D (c, inflight) es = (c', inflight') \<longrightarrow> dom (regionMap c) \<subseteq> dom (regionMap c'))
   \<and> (getBucketRegion_response D c b rep = (Inl e, c') \<longrightarrow> c' = c)
   \<and> (getBucketRegion D c bucket rep = (Inl e, c', sent) \<longrightarrow> c' = c)
   \<and> getBucketRegion_response D c b (NetworkError e) = (Inl e, c)
   \<and> (statusCode resp \<noteq> 200
        \<longrightarrow> getBucketRegion_response D c b (Response resp) = (Inl (errorPipeline D resp), c))
   \<and> (statusCode resp = 200 \<and> concater (body resp) = Inl e
        \<longrightarrow> getBucketRegion_response D c b (Response resp) = (Inl e, c))
   \<and> (\<forall>xml. statusCode resp = 200 \<and> concater (body resp) = Inr xml
          \<and> bucketRegionTransformer D xml = Inl e
        \<longrightarrow> getBucketRegion_response D c b (Response resp) = (Inl e, c))
   \<and> (\<forall>xml region. statusCode resp = 200 \<and> concater (body resp) = Inr xml
          \<and> bucketRegionTransformer D xml = Inr region
        \<longrightarrow> getBucketRegion_response D c b (Response resp)
            = (Inr (if region = [] then ''us-east-1'' else region),
               c\<lparr>regionMap :=
                   (regionMap c)(b \<mapsto> (if region = [] then ''us-east-1'' else region))\<rparr>))
   \<and> (\<forall>req. getBucketRegion_start c bucket = Issued b req
        \<longrightarrow> getBucketRegion D c bucket (NetworkError e) = (Inl e, c, [(req, ''us-east-1'')])
            \<and> (statusCode resp \<noteq> 200
                 \<longrightarrow> getBucketRegion D c bucket (Response resp)
                     = (Inl (errorPipeline D resp), c, [(req, ''us-east-1'')])))
   \<and> (b \<in> set inflight
        \<longrightarrow> step D (c, inflight) (Answer b (NetworkError e)) = (c, remove1 b inflight)
            \<and> (statusCode resp \<noteq> 200
                 \<longrightarrow> step D (c, inflight) (Answer b (Response resp))
                     = (c, remove1 b inflight)))
   \<and> (getBucketRegion D c (bucketName options) regionReply = (Inl e, c', sent)
        \<longrightarrow> makeRequest D c options payload expected regionReply rep = (Inl e, c', sent))"
proof (intro conjI impI allI)
  assume a: "regionMap c0 = Map.empty \<and> run D (c0, []) es = (c1, inflight1)
      \<and> regionMap c1 b = Some r \<and> b \<notin> set inflight1
      \<and> run D (c1, inflight1) es' = (c2, inflight2)"
  then have "cacheRegionsNonEmpty c1"
    using run_nonEmpty [of D c0 "[]" es c1 inflight1] fresh_nonEmpty [of c0] by blast
  with a show "regionMap c2 b = Some r"
    using run_keeps_entry [of D c1 inflight1 es' c2 inflight2 b r] by blast
next
  assume "run D (c, inflight) es = (c', inflight')"
  then show "dom (regionMap c) \<subseteq> dom (regionMap c')" by (rule run_dom)
next
  assume "getBucketRegion_response D c b rep = (Inl e, c')"
  then show "c' = c" by (rule getBucketRegion_response_failed)
next
  assume "getBucketRegion D c bucket rep = (Inl e, c', sent)"
  then show "c' = c" by (rule getBucketRegion_failed)
next
  show "getBucketRegion_response D c b (NetworkError e) = (Inl e, c)"
    by (rule getBucketRegion_response_cases(1))
next
  assume "statusCode resp \<noteq> 200"
  then show "getBucketRegion_response D c b (Response resp) = (Inl (errorPipeline D resp), c)"
    by (rule getBucketRegion_response_cases(2))
next
  assume "statusCode resp = 200 \<and> concater (body resp) = Inl e"
  then show "getBucketRegion_response D c b (Response resp) = (Inl e, c)"
    by (simp add: getBucketRegion_response_cases(3))
next
  fix xml
  assume "statusCode resp = 200 \<and> concater (body resp) = Inr xml
          \<and> bucketRegionTransformer D xml = Inl e"
  then show "getBucketRegion_response D c b (Response resp) = (Inl e, c)"
    by (simp add: getBucketRegion_response_cases(4))
next
  fix xml region
  assume "statusCode resp = 200 \<and> concater (body resp) = Inr xml
          \<and> bucketRegionTransformer D xml = Inr region"
  then show "getBucketRegion_response D c b (Response resp)
            = (Inr (if region = [] then ''us-east-1'' else region),
               c\<lparr>regionMap :=
                   (regionMap c)(b \<mapsto> (if region = [] then ''us-east-1'' else region))\<rparr>)"
    by (simp add: getBucketRegion_response_cases(5))
next
  fix req
  assume "getBucketRegion_start c bucket = Issued b req"
  then show "getBucketRegion D c bucket (NetworkError e) = (Inl e, c, [(req, ''us-east-1'')])"
    by (simp add: getBucketRegion_issued getBucketRegion_response_cases(1))
next
  fix req
  assume "getBucketRegion_start c bucket = Issued b req" and "statusCode resp \<noteq> 200"
  then show "getBucketRegion D c bucket (Response resp)
                     = (Inl (errorPipeline D resp), c, [(req, ''us-east-1'')])"
    by (simp add: getBucketRegion_issued getBucketRegion_response_cases(2))
next
  assume "b \<in> set inflight"
  then show "step D (c, inflight) (Answer b (NetworkError e)) = (c, remove1 b inflight)"
    by (simp add: getBucketRegion_response_cases(1))
next
  assume "b \<in> set inflight" and "statusCode resp \<noteq> 200"
  then show "step D (c, inflight) (Answer b (Response resp)) = (c, remove1 b inflight)"
    by (simp add: getBucketRegion_response_cases(2))
next
  assume "getBucketRegion D c (bucketName options) regionReply = (Inl e, c', sent)"
  then show "makeRequest D c options payload expected regionReply rep = (Inl e, c', sent)"
    by (rule makeRequest_region_failed)
qed

text \<open>
  The claim as first stated lets no operation change an entry once it is there.
  \<open>getBucketRegion\<close> tests the cache before it sends its request and writes it
  when the answer arrives, without testing again: of two lookups of the same bucket
  started before either is answered, the second answer replaces the region stored by
  the first.
\<close>

theorem regionMap_monotonic_counterexample:
  "regionMap (fst (run exampleDeps (amazonClient, [])
       [Lookup (Some ''bkt''), Lookup (Some ''bkt''),
        Answer ''bkt'' (Response (textResponse 200 ''eu-west-1''))])) ''bkt''
     = Some ''eu-west-1''
   \<and> regionMap (fst (run exampleDeps (amazonClient, [])
       [Lookup (Some ''bkt''), Lookup (Some ''bkt''),
        Answer ''bkt'' (Response (textResponse 200 ''eu-west-1'')),
        Answer ''bkt'' (Response (textResponse 200 ''us-west-2''))])) ''bkt''
     = Some ''us-west-2''"
  by (simp add: run_Cons run_Nil getBucketRegion_start_def amazonClient_fields truthy_def
      example_location)

theorem regionMap_monotonic_witness:
  "regionMap (fst (run exampleDeps (amazonClient, [])
       [Lookup (Some ''bkt''), Answer ''bkt'' (Response (textResponse 200 ''eu-west-1'')),
        Lookup (Some ''bkt''), Answer ''bkt'' (Response (textResponse 200 ''us-west-2'')),
        SetAppInfo ''app'' ''1.0'', Lookup (Some ''other''),
        Answer ''other'' (Response (textResponse 200 []))])) ''bkt''
     = Some ''eu-west-1''
   \<and> step exampleDeps (amazonClient, [''bkt''])
         (Answer ''bkt'' (NetworkError
            \<lparr>code = Some ''ECONNRESET'', message = ''socket hang up'', details = []\<rparr>))
       = (amazonClient, [])
   \<and> getBucketRegion exampleDeps amazonClient (Some ''bkt'')
         (Response (textResponse 403 ''AccessDenied: Access Denied''))
       = (Inl \<lparr>code = Some ''AccessDenied'', message = ''Access Denied'', details = []\<rparr>,
          amazonClient, [(getBucketRegion_request amazonClient ''bkt'', ''us-east-1'')])
   \<and> makeRequest exampleDeps amazonClient (objectOpts ''bkt'' ''key'') [] 200
         (Response (textResponse 403 ''AccessDenied: Access Denied''))
         (Response (textResponse 200 ''data''))
       = (Inl \<lparr>code = Some ''AccessDenied'', message = ''Access Denied'', details = []\<rparr>,
          amazonClient, [(getBucketRegion_request amazonClient ''bkt'', ''us-east-1'')])"
proof (intro conjI)
  let ?es = "[Lookup (Some ''bkt''), Answer ''bkt'' (Response (textResponse 200 ''eu-west-1''))]"
  let ?es' = "[Lookup (Some ''bkt''), Answer ''bkt'' (Response (textResponse 200 ''us-west-2'')),
        SetAppInfo ''app'' ''1.0'', Lookup (Some ''other''),
        Answer ''other'' (Response (textResponse 200 []))]"
  let ?st1 = "run exampleDeps (amazonClient, []) ?es"
  let ?st2 = "run exampleDeps ?st1 ?es'"
  let ?reset = "\<lparr>code = Some ''ECONNRESET'', message = ''socket hang up'', details = []\<rparr>"
  let ?denied = "textResponse 403 ''AccessDenied: Access Denied''"
  let ?e = "\<lparr>code = Some ''AccessDenied'', message = ''Access Denied'', details = []\<rparr>"
  have entry: "regionMap (fst ?st1) ''bkt'' = Some ''eu-west-1''"
    by (simp add: run_Cons run_Nil getBucketRegion_start_def amazonClient_fields truthy_def
        example_location)
  have idle: "''bkt'' \<notin> set (snd ?st1)"
    by (simp add: run_Cons run_Nil getBucketRegion_start_def amazonClient_fields truthy_def
        example_location)
  have "regionMap amazonClient = Map.empty
      \<and> run exampleDeps (amazonClient, []) ?es = (fst ?st1, snd ?st1)
      \<and> regionMap (fst ?st1) ''bkt'' = Some ''eu-west-1'' \<and> ''bkt'' \<notin> set (snd ?st1)
      \<and> run exampleDeps (fst ?st1, snd ?st1) ?es' = (fst ?st2, snd ?st2)"
    using entry idle by (simp only: amazonClient_fields prod.collapse simp_thms)
  from regionMap_monotonic [THEN conjunct1, THEN mp, OF this]
  have "regionMap (fst ?st2) ''bkt'' = Some ''eu-west-1''" .
  then show "regionMap (fst (run exampleDeps (amazonClient, [])
       [Lookup (Some ''bkt''), Answer ''bkt'' (Response (textResponse 200 ''eu-west-1'')),
        Lookup (Some ''bkt''), Answer ''bkt'' (Response (textResponse 200 ''us-west-2'')),
        SetAppInfo ''app'' ''1.0'', Lookup (Some ''other''),
        Answer ''other'' (Response (textResponse 200 []))])) ''bkt''
     = Some ''eu-west-1''"
    by (simp only: run_append [symmetric] append_Cons append_Nil)
  have pending: "''bkt'' \<in> set [''bkt'']" by simp
  from regionMap_monotonic
    [where D = exampleDeps and c = amazonClient and b = "''bkt''" and inflight = "[''bkt'']"
      and e = ?reset,
      THEN conjunct2, THEN conjunct2, THEN conjunct2, THEN conjunct2, THEN conjunct2,
      THEN conjunct2, THEN conjunct2, THEN conjunct2, THEN conjunct2, THEN conjunct2,
      THEN conjunct1, THEN mp, OF pending, THEN conjunct1]
  show "step exampleDeps (amazonClient, [''bkt'']) (Answer ''bkt'' (NetworkError ?reset))
       = (amazonClient, [])"
    by simp
  have issued: "getBucketRegion_start amazonClient (Some ''bkt'')
      = Issued ''bkt'' (getBucketRegion_request amazonClient ''bkt'')"
    by (simp add: getBucketRegion_start_def amazonClient_fields truthy_def)
  have status: "statusCode ?denied \<noteq> 200" by (simp add: textResponse_def)
  have err: "errorPipeline exampleDeps ?denied = ?e"
    by (simp add: errorPipeline_def exampleDeps_def exampleError_def concater_def
        textResponse_def)
  from regionMap_monotonic
    [where D = exampleDeps and c = amazonClient and b = "''bkt''" and bucket = "Some ''bkt''"
      and resp = ?denied,
      THEN conjunct2, THEN conjunct2, THEN conjunct2, THEN conjunct2, THEN conjunct2,
      THEN conjunct2, THEN conjunct2, THEN conjunct2, THEN conjunct2,
      THEN conjunct1, THEN spec, THEN mp, OF issued, THEN conjunct2, THEN mp, OF status]
  have failed: "getBucketRegion exampleDeps amazonClient (Some ''bkt'') (Response ?denied)
       = (Inl ?e, amazonClient, [(getBucketRegion_request amazonClient ''bkt'', ''us-east-1'')])"
    by (simp only: err)
  then show "getBucketRegion exampleDeps amazonClient (Some ''bkt'') (Response ?denied)
       = (Inl ?e, amazonClient, [(getBucketRegion_request amazonClient ''bkt'', ''us-east-1'')])" .
  have "getBucketRegion exampleDeps amazonClient (bucketName (objectOpts ''bkt'' ''key''))
          (Response ?denied)
       = (Inl ?e, amazonClient, [(getBucketRegion_request amazonClient ''bkt'', ''us-east-1'')])"
    using failed by (simp add: objectOpts_def)
  from regionMap_monotonic
    [THEN conjunct2, THEN conjunct2, THEN conjunct2, THEN conjunct2, THEN conjunct2,
      THEN conjunct2, THEN conjunct2, THEN conjunct2, THEN conjunct2, THEN conjunct2,
      THEN conjunct2, THEN mp, OF this]
  show "makeRequest exampleDeps amazonClient (objectOpts ''bkt'' ''key'') [] 200
         (Response ?denied) (Response (textResponse 200 ''data''))
       = (Inl ?e, amazonClient, [(getBucketRegion_request amazonClient ''bkt'', ''us-east-1'')])" .
qed


subsection \<open>Object downloads\<close>

lemma numberToString_0: "numberToString 0 = ''0''"
  by (simp add: numberToString_def showNat.simps)

lemma getPartialObject_range_eq:
  assumes "offset \<noteq> 0 \<or> len \<noteq> 0"
  shows "getPartialObject_range offset len
         = ''bytes='' @ numberToString offset @ ''-''
             @ (if len = 0 then [] else numberToString (offset + len - 1))"
  using assms
  by (auto simp add: getPartialObject_range_def Let_def numberToString_0 add.commute)

lemma getPartialObject_range_none: "getPartialObject_range 0 0 = []"
  by (simp add: getPartialObject_range_def)

lemma header_getRequestOptions:
  "header (getRequestOptions D c options) name
   = (case optHeaders options of None \<Rightarrow> None | Some hs \<Rightarrow> map_of hs name)"
  by (simp add: header_def getRequestOptions_def Let_def)

lemma getBucketRegion_sent:
  assumes "getBucketRegion D c (Some b) regionReply = (reg, c', sent)"
  shows "sent = [] \<or> sent = [(getBucketRegion_request c b, ''us-east-1'')]"
  using assms
  by (auto simp add: getBucketRegion_def getBucketRegion_start_def Let_def
      split: if_splits prod.splits)

lemma makeRequest_sent:
  assumes "makeRequest D c options payload expected regionReply rep = (res, c', sent)"
    and "bucketName options = Some b"
  shows "set sent \<subseteq> {(getBucketRegion_request c b, ''us-east-1'')}
                      \<union> {(getRequestOptions D c options, region) | region. True}"
proof -
  obtain reg c1 sent1 where g: "getBucketRegion D c (Some b) regionReply = (reg, c1, sent1)"
    by (cases "getBucketRegion D c (Some b) regionReply") auto
  from getBucketRegion_sent [OF g]
  have s1: "set sent1 \<subseteq> {(getBucketRegion_request c b, ''us-east-1'')}" by auto
  from assms g show ?thesis
    using s1
    by (auto simp add: makeRequest_def Let_def split: sum.splits reply.splits)
qed

lemma getPartialObject_sent:
  assumes "getPartialObject D c b obj offset len cbIsFunction regionReply rep
           = Inr (res, c', sent)"
  shows "\<forall>x\<in>set sent. fst x = getBucketRegion_request c b
           \<or> fst x = getRequestOptions D c (getPartialObject_options b obj offset len)"
proof -
  obtain res0 c0 sent0 where m:
    "makeRequest D c (getPartialObject_options b obj offset len) [] 0 regionReply rep
     = (res0, c0, sent0)"
    by (cases "makeRequest D c (getPartialObject_options b obj offset len) [] 0
                 regionReply rep") auto
  have b: "bucketName (getPartialObject_options b obj offset len) = Some b"
    by (simp add: getPartialObject_options_def Let_def)
  from assms m have "sent = sent0"
    by (simp add: getPartialObject_def split: option.splits if_splits)
  with makeRequest_sent [OF m b] show ?thesis by auto
qed

lemma getPartialObject_self_hosted:
  assumes "checkObjectArgs D b obj = None"
    and "host (params c) \<noteq> ''s3.amazonaws.com''"
  shows "\<exists>res. getPartialObject D c b obj offset len True regionReply rep
           = Inr (res, c, [(getRequestOptions D c (getPartialObject_options b obj offset len),
                            ''us-east-1'')])"
  using assms
  by (simp add: getPartialObject_def makeRequest_def Let_def getBucketRegion_self_hosted
      split: reply.splits)

text \<open>
  C8. For \<open>getPartialObject\<close> with an offset or a length that is not zero, the
  request descriptor carries the header \<open>Range: bytes=off-lastByte\<close> with
  \<open>lastByte = off + len - 1\<close> when the length is not zero, and the open-ended
  \<open>Range: bytes=off-\<close> when it is zero. Apart from a location request of the region
  lookup, that descriptor is the only request the call sends, and on a self-hosted
  client it is sent.
\<close>

theorem getPartialObject_range_header:
  "((offset \<noteq> 0 \<or> len \<noteq> 0) \<and> len \<noteq> 0
      \<longrightarrow> header (getRequestOptions D c (getPartialObject_options b obj offset len)) ''Range''
          = Some (''bytes='' @ numberToString offset @ ''-''
                   @ numberToString (offset + len - 1)))
   \<and> (offset \<noteq> 0 \<and> len = 0
      \<longrightarrow> header (getRequestOptions D c (getPartialObject_options b obj offset len)) ''Range''
          = Some (''bytes='' @ numberToString offset @ ''-''))
   \<and> (\<forall>res c' sent.
         getPartialObject D c b obj offset len cbIsFunction regionReply rep
           = Inr (res, c', sent)
         \<longrightarrow> (\<forall>x\<in>set sent. fst x = getBucketRegion_request c b
                \<or> fst x = getRequestOptions D c (getPartialObject_options b obj offset len)))
   \<and> (checkObjectArgs D b obj = None \<and> host (params c) \<noteq> ''s3.amazonaws.com''
      \<longrightarrow> (\<exists>res. getPartialObject D c b obj offset len True regionReply rep
              = Inr (res, c,
                     [(getRequestOptions D c (getPartialObject_options b obj offset len),
                       ''us-east-1'')])))"
proof (intro conjI impI allI)
  assume a: "(offset \<noteq> 0 \<or> len \<noteq> 0) \<and> len \<noteq> 0"
  then have "getPartialObject_range offset len
      = ''bytes='' @ numberToString offset @ ''-'' @ numberToString (offset + len - 1)"
    by (simp add: getPartialObject_range_eq)
  then show "header (getRequestOptions D c (getPartialObject_options b obj offset len)) ''Range''
          = Some (''bytes='' @ numberToString offset @ ''-''
                   @ numberToString (offset + len - 1))"
    by (simp add: header_getRequestOptions getPartialObject_options_def Let_def)
next
  assume a: "offset \<noteq> 0 \<and> len = 0"
  then have "getPartialObject_range offset len = ''bytes='' @ numberToString offset @ ''-''"
    by (simp add: getPartialObject_range_eq)
  then show "header (getRequestOptions D c (getPartialObject_options b obj offset len)) ''Range''
          = Some (''bytes='' @ numberToString offset @ ''-'')"
    by (simp add: header_getRequestOptions getPartialObject_options_def Let_def)
next
  fix res c' sent
  assume "getPartialObject D c b obj offset len cbIsFunction regionReply rep
           = Inr (res, c', sent)"
  then show "\<forall>x\<in>set sent. fst x = getBucketRegion_request c b
                \<or> fst x = getRequestOptions D c (getPartialObject_options b obj offset len)"
    by (rule getPartialObject_sent)
next
  assume "checkObjectArgs D b obj = None \<and> host (params c) \<noteq> ''s3.amazonaws.com''"
  then show "\<exists>res. getPartialObject D c b obj offset len True regionReply rep
              = Inr (res, c,
                     [(getRequestOptions D c (getPartialObject_options b obj offset len),
                       ''us-east-1'')])"
    by (simp add: getPartialObject_self_hosted)
qed

theorem getPartialObject_range_header_witness:
  "header (getRequestOptions exampleDeps playClient
             (getPartialObject_options ''mybucket'' ''key'' 0 10)) ''Range''
     = Some ''bytes=0-9''
   \<and> header (getRequestOptions exampleDeps playClient
             (getPartialObject_options ''mybucket'' ''key'' 100 0)) ''Range''
     = Some ''bytes=100-''
   \<and> (\<exists>res. getPartialObject exampleDeps playClient ''mybucket'' ''key'' 0 10 True
               (Response (textResponse 200 [])) (Response (textResponse 206 ''0123456789''))
             = Inr (res, playClient,
                    [(getRequestOptions exampleDeps playClient
                        (getPartialObject_options ''mybucket'' ''key'' 0 10), ''us-east-1'')]))"
proof (intro conjI)
  have n: "numberToString 0 = ''0''" "numberToString 9 = ''9''"
    "numberToString 100 = ''100''"
    by (simp_all add: numberToString_def showNat.simps)
  show "header (getRequestOptions exampleDeps playClient
             (getPartialObject_options ''mybucket'' ''key'' 0 10)) ''Range''
     = Some ''bytes=0-9''"
    using getPartialObject_range_header
      [where offset = 0 and len = 10 and D = exampleDeps and c = playClient
        and b = "''mybucket''" and obj = "''key''", THEN conjunct1]
    by (simp add: n)
  show "header (getRequestOptions exampleDeps playClient
             (getPartialObject_options ''mybucket'' ''key'' 100 0)) ''Range''
     = Some ''bytes=100-''"
    using getPartialObject_range_header
      [where offset = 100 and len = 0 and D = exampleDeps and c = playClient
        and b = "''mybucket''" and obj = "''key''", THEN conjunct2, THEN conjunct1]
    by (simp add: n)
  have args: "checkObjectArgs exampleDeps ''mybucket'' ''key'' = None"
    by (simp add: checkObjectArgs_def exampleDeps_def trimIsEmpty_def isWhiteSpace_def)
  have self_hosted: "host (params playClient) \<noteq> ''s3.amazonaws.com''"
    by (simp add: playClient_def newClient_def)
  show "\<exists>res. getPartialObject exampleDeps playClient ''mybucket'' ''key'' 0 10 True
               (Response (textResponse 200 [])) (Response (textResponse 206 ''0123456789''))
             = Inr (res, playClient,
                    [(getRequestOptions exampleDeps playClient
                        (getPartialObject_options ''mybucket'' ''key'' 0 10), ''us-east-1'')])"
    by (rule getPartialObject_range_header
      [where offset = 0 and len = 10 and D = exampleDeps and c = playClient
        and b = "''mybucket''" and obj = "''key''", THEN conjunct2, THEN conjunct2,
        THEN conjunct2, THEN mp, OF conjI [OF args self_hosted]])
qed

lemma getObject_eq:
  "getObject D c b obj cbIsFunction regionReply rep
   = getPartialObject D c b obj 0 0 cbIsFunction regionReply rep"
  by (simp add: getObject_def getPartialObject_def split: option.splits)

lemma header_getBucketRegion_request: "header (getBucketRegion_request c b) name = None"
  by (simp add: header_def getBucketRegion_request_def)

lemma header_full_object:
  "header (getRequestOptions D c (getPartialObject_options b obj 0 0)) name = None"
  by (simp add: header_getRequestOptions getPartialObject_options_def Let_def
      getPartialObject_range_none)

lemma getObject_delivers_body:
  assumes "checkObjectArgs D b obj = None"
    and "getBucketRegion D c (Some b) regionReply = (Inr region, c', sent)"
    and "statusCode r = 200 \<or> statusCode r = 206"
  shows "getObject D c b obj True regionReply (Response r)
         = Inr (Inr (body r), c',
                sent @ [(getRequestOptions D c (getPartialObject_options b obj 0 0), region)])"
proof -
  have b: "bucketName (getPartialObject_options b obj 0 0) = Some b"
    by (simp add: getPartialObject_options_def Let_def)
  from assms(2) have g: "getBucketRegion D c
      (bucketName (getPartialObject_options b obj 0 0)) regionReply = (Inr region, c', sent)"
    by (simp only: b)
  show ?thesis
    using assms(1,3)
    by (auto simp add: getObject_eq getPartialObject_def makeRequest_answered(1) [OF g]
        makeRequest_response_def getPartialObject_callback_def)
qed

text \<open>
  C10. \<open>getObject(bucket, object, cb)\<close> behaves as
  \<open>getPartialObject(bucket, object, 0, 0, cb)\<close>: the same exception or the same
  callback arguments, client state and requests. No request of a full download
  carries a \<open>Range\<close> header, and on status 200 or 206 the callback receives the
  body stream of the response as it is.
\<close>

theorem getObject_as_getPartialObject:
  "getObject D c b obj cbIsFunction regionReply rep
     = getPartialObject D c b obj 0 0 cbIsFunction regionReply rep
   \<and> (\<forall>res c' sent.
         getObject D c b obj cbIsFunction regionReply rep = Inr (res, c', sent)
         \<longrightarrow> (\<forall>x\<in>set sent. header (fst x) ''Range'' = None))
   \<and> (\<forall>r region c' sent.
         checkObjectArgs D b obj = None
         \<and> getBucketRegion D c (Some b) regionReply = (Inr region, c', sent)
         \<and> (statusCode r = 200 \<or> statusCode r = 206)
         \<longrightarrow> getObject D c b obj True regionReply (Response r)
             = Inr (Inr (body r), c',
                    sent @ [(getRequestOptions D c (getPartialObject_options b obj 0 0),
                             region)]))"
proof (intro conjI allI impI)
  show "getObject D c b obj cbIsFunction regionReply rep
     = getPartialObject D c b obj 0 0 cbIsFunction regionReply rep"
    by (rule getObject_eq)
next
  fix res c' sent
  assume "getObject D c b obj cbIsFunction regionReply rep = Inr (res, c', sent)"
  then have "getPartialObject D c b obj 0 0 cbIsFunction regionReply rep = Inr (res, c', sent)"
    by (simp only: getObject_eq)
  from getPartialObject_sent [OF this]
  show "\<forall>x\<in>set sent. header (fst x) ''Range'' = None"
    by (auto simp add: header_getBucketRegion_request header_full_object)
next
  fix r :: response and region c' sent
  assume "checkObjectArgs D b obj = None
         \<and> getBucketRegion D c (Some b) regionReply = (Inr region, c', sent)
         \<and> (statusCode r = 200 \<or> statusCode r = 206)"
  then show "getObject D c b obj True regionReply (Response r)
             = Inr (Inr (body r), c',
                    sent @ [(getRequestOptions D c (getPartialObject_options b obj 0 0),
                             region)])"
    by (intro getObject_delivers_body) simp_all
qed

theorem getObject_as_getPartialObject_witness:
  "getObject exampleDeps playClient ''mybucket'' ''key'' True
     (Response (textResponse 200 [])) (Response (textResponse 200 ''data''))
   = Inr (Inr (Readable [''data''] None), playClient,
          [(getRequestOptions exampleDeps playClient
              (getPartialObject_options ''mybucket'' ''key'' 0 0), ''us-east-1'')])
   \<and> header (getRequestOptions exampleDeps playClient
               (getPartialObject_options ''mybucket'' ''key'' 0 0)) ''Range'' = None"
proof -
  let ?call = "getObject exampleDeps playClient ''mybucket'' ''key'' True
     (Response (textResponse 200 [])) (Response (textResponse 200 ''data''))"
  let ?req = "getRequestOptions exampleDeps playClient
              (getPartialObject_options ''mybucket'' ''key'' 0 0)"
  note inst = getObject_as_getPartialObject
    [where D = exampleDeps and c = playClient and b = "''mybucket''" and obj = "''key''"
      and regionReply = "Response (textResponse 200 [])"
      and rep = "Response (textResponse 200 ''data'')" and cbIsFunction = True]
  have args: "checkObjectArgs exampleDeps ''mybucket'' ''key'' = None"
    by (simp add: checkObjectArgs_def exampleDeps_def trimIsEmpty_def isWhiteSpace_def)
  have region: "getBucketRegion exampleDeps playClient (Some ''mybucket'')
      (Response (textResponse 200 [])) = (Inr ''us-east-1'', playClient, [])"
    by (rule getBucketRegion_self_hosted) (simp add: playClient_def newClient_def)
  have status: "statusCode (textResponse 200 ''data'') = 200
      \<or> statusCode (textResponse 200 ''data'') = 206"
    by (simp add: textResponse_def)
  from inst [THEN conjunct2, THEN conjunct2, THEN spec, THEN spec, THEN spec, THEN spec,
      THEN mp, OF conjI [OF args conjI [OF region status]]]
  have call: "?call = Inr (Inr (Readable [''data''] None), playClient, [(?req, ''us-east-1'')])"
    by (simp add: textResponse_def)
  from inst [THEN conjunct2, THEN conjunct1, THEN spec, THEN spec, THEN spec, THEN mp, OF call]
  have "header ?req ''Range'' = None" by simp
  with call show ?thesis by (rule conjI)
qed


subsection \<open>Uploads\<close>

lemma putObject_single:
  assumes "checkObjectArgs D b obj = None" and "sz \<le> 5 * MiB"
  shows "concater stream = Inr chunk
         \<Longrightarrow> putObject D M b obj stream sz contentType True s
             = Inr (fst (doPutObject M b obj (putObject_contentType contentType) None None chunk s),
                    snd (doPutObject M b obj (putObject_contentType contentType) None None chunk s),
                    [DoPutObject b obj (putObject_contentType contentType) None None chunk])"
    and "concater stream = Inl e
         \<Longrightarrow> putObject D M b obj stream sz contentType True s = Inr (Inl e, s, [])"
  using assms
  by (simp_all add: putObject_def Let_def MiB_def split: prod.splits)

lemma putObject_large:
  assumes "checkObjectArgs D b obj = None" and "sz > 5 * MiB"
  shows "putObject D M b obj stream sz contentType True s
         = Inr (putObject_multipart M b obj stream sz (putObject_contentType contentType) s)"
  using assms by (simp add: putObject_def Let_def MiB_def)

lemma map_sum_eq_Inr: "map_sum f g x = Inr y \<longleftrightarrow> (\<exists>z. x = Inr z \<and> g z = y)"
  by (cases x) auto

lemma putObject_multipart_calls:
  assumes "putObject_multipart M b obj stream sz contentType s = (res, s', calls)"
  shows "calls \<noteq> []" and "hd calls = FindUploadId b obj"
    and "\<not> list_ex isDoPutObject calls"
    and "res = Inr etag
         \<Longrightarrow> \<exists>second uploadId etags etags'.
               calls = [FindUploadId b obj, second,
                        UploadChunks b obj contentType uploadId etags (calculatePartSize sz) sz
                          stream,
                        CompleteMultipartUpload b obj uploadId etags']
               \<and> (second = ListAllParts b obj (interpolate uploadId)
                    \<or> second = InitiateNewMultipartUpload b obj contentType)"
  using assms
  by (auto simp add: putObject_multipart_def Let_def map_sum_eq_Inr
      split: prod.splits sum.splits if_splits)

lemma putObject_multipart_stops:
  "findUploadId M b obj s = (Inl e, s1)
   \<Longrightarrow> putObject_multipart M b obj stream sz ct s = (Inl e, s1, [FindUploadId b obj])"
  "findUploadId M b obj s = (Inr uploadId, s1) \<Longrightarrow> truthy uploadId
   \<Longrightarrow> listAllParts M b obj (interpolate uploadId) s1 = (Inl e, s2)
   \<Longrightarrow> putObject_multipart M b obj stream sz ct s
       = (Inl e, s2, [FindUploadId b obj, ListAllParts b obj (interpolate uploadId)])"
  "findUploadId M b obj s = (Inr uploadId, s1) \<Longrightarrow> \<not> truthy uploadId
   \<Longrightarrow> initiateNewMultipartUpload M b obj ct s1 = (Inl e, s2)
   \<Longrightarrow> putObject_multipart M b obj stream sz ct s
       = (Inl e, s2, [FindUploadId b obj, InitiateNewMultipartUpload b obj ct])"
  by (simp_all add: putObject_multipart_def Let_def)

lemma putObject_multipart_resumed:
  assumes "findUploadId M b obj s = (Inr uploadId, s1)" and "truthy uploadId"
    and "listAllParts M b obj (interpolate uploadId) s1 = (Inr etags, s2)"
  shows "uploadChunks M b obj ct uploadId etags (calculatePartSize sz) sz stream s2 = (Inl e, s3)
         \<Longrightarrow> putObject_multipart M b obj stream sz ct s
             = (Inl e, s3,
                [FindUploadId b obj, ListAllParts b obj (interpolate uploadId),
                 UploadChunks b obj ct uploadId etags (calculatePartSize sz) sz stream])"
    and "uploadChunks M b obj ct uploadId etags (calculatePartSize sz) sz stream s2
           = (Inr etags', s3)
         \<Longrightarrow> putObject_multipart M b obj stream sz ct s
             = (fst (completeMultipartUpload M b obj uploadId etags' s3),
                snd (completeMultipartUpload M b obj uploadId etags' s3),
                [FindUploadId b obj, ListAllParts b obj (interpolate uploadId),
                 UploadChunks b obj ct uploadId etags (calculatePartSize sz) sz stream,
                 CompleteMultipartUpload b obj uploadId etags'])"
  using assms by (simp_all add: putObject_multipart_def Let_def split: prod.splits)

lemma putObject_multipart_new:
  assumes "findUploadId M b obj s = (Inr uploadId, s1)" and "\<not> truthy uploadId"
    and "initiateNewMultipartUpload M b obj ct s1 = (Inr newId, s2)"
  shows "uploadChunks M b obj ct newId [] (calculatePartSize sz) sz stream s2 = (Inl e, s3)
         \<Longrightarrow> putObject_multipart M b obj stream sz ct s
             = (Inl e, s3,
                [FindUploadId b obj, InitiateNewMultipartUpload b obj ct,
                 UploadChunks b obj ct newId [] (calculatePartSize sz) sz stream])"
    and "uploadChunks M b obj ct newId [] (calculatePartSize sz) sz stream s2 = (Inr etags', s3)
         \<Longrightarrow> putObject_multipart M b obj stream sz ct s
             = (fst (completeMultipartUpload M b obj newId etags' s3),
                snd (completeMultipartUpload M b obj newId etags' s3),
                [FindUploadId b obj, InitiateNewMultipartUpload b obj ct,
                 UploadChunks b obj ct newId [] (calculatePartSize sz) sz stream,
                 CompleteMultipartUpload b obj newId etags'])"
  using assms by (simp_all add: putObject_multipart_def Let_def split: prod.splits)

text \<open>
  C7. A \<open>putObject\<close> call whose arguments pass the checks chooses by the declared
  size. Up to 5 MiB the whole input stream is buffered and \<open>doPutObject\<close>, the single
  PUT, is called exactly once on the buffered bytes; its result, the ETag, is what the
  caller receives (an error of the stream is passed on and nothing is sent). Above 5 MiB
  the multipart path is taken and the single PUT is never called. It calls
  \<open>findUploadId\<close>; with the upload it finds it lists the parts of that upload, and
  without one it initiates a new upload, with no parts; it pipes the caller's stream
  into the chunk pipeline with that upload, those parts, the part size of
  \<open>calculatePartSize\<close> and the declared size; it completes that upload with the parts
  the pipeline returns, and the caller receives what the completion returns. The first
  error ends the path and is what the caller receives.
\<close>

theorem putObject_strategy:
  "(checkObjectArgs D b obj = None \<and> sz \<le> 5 * MiB \<and> concater stream = Inr chunk
      \<longrightarrow> putObject D M b obj stream sz contentType True s
          = Inr (fst (doPutObject M b obj (putObject_contentType contentType) None None chunk s),
                 snd (doPutObject M b obj (putObject_contentType contentType) None None chunk s),
                 [DoPutObject b obj (putObject_contentType contentType) None None chunk]))
   \<and> (checkObjectArgs D b obj = None \<and> sz \<le> 5 * MiB \<and> concater stream = Inl e
      \<longrightarrow> putObject D M b obj stream sz contentType True s = Inr (Inl e, s, []))
   \<and> (checkObjectArgs D b obj = None \<and> sz > 5 * MiB
      \<longrightarrow> (\<exists>res s' calls.
             putObject D M b obj stream sz contentType True s = Inr (res, s', calls)
             \<and> calls \<noteq> [] \<and> hd calls = FindUploadId b obj
             \<and> \<not> list_ex isDoPutObject calls))
   \<and> (checkObjectArgs D b obj = None \<and> sz > 5 * MiB
      \<longrightarrow> (\<forall>s1. findUploadId M b obj s = (Inl e, s1)
             \<longrightarrow> putObject D M b obj stream sz contentType True s
                 = Inr (Inl e, s1, [FindUploadId b obj]))
          \<and> (\<forall>uploadId s1.
               findUploadId M b obj s = (Inr uploadId, s1) \<and> truthy uploadId
               \<longrightarrow> (\<forall>s2. listAllParts M b obj (interpolate uploadId) s1 = (Inl e, s2)
                      \<longrightarrow> putObject D M b obj stream sz contentType True s
                          = Inr (Inl e, s2,
                                 [FindUploadId b obj,
                                  ListAllParts b obj (interpolate uploadId)]))
                   \<and> (\<forall>etags s2.
                        listAllParts M b obj (interpolate uploadId) s1 = (Inr etags, s2)
                        \<longrightarrow> (\<forall>s3. uploadChunks M b obj (putObject_contentType contentType)
                                     uploadId etags (calculatePartSize sz) sz stream s2
                                   = (Inl e, s3)
                               \<longrightarrow> putObject D M b obj stream sz contentType True s
                                   = Inr (Inl e, s3,
                                          [FindUploadId b obj,
                                           ListAllParts b obj (interpolate uploadId),
                                           UploadChunks b obj
                                             (putObject_contentType contentType) uploadId
                                             etags (calculatePartSize sz) sz stream]))
                            \<and> (\<forall>etags' s3.
                                 uploadChunks M b obj (putObject_contentType contentType)
                                     uploadId etags (calculatePartSize sz) sz stream s2
                                   = (Inr etags', s3)
                                 \<longrightarrow> putObject D M b obj stream sz contentType True s
                                     = Inr (fst (completeMultipartUpload M b obj uploadId
                                                   etags' s3),
                                            snd (completeMultipartUpload M b obj uploadId
                                                   etags' s3),
                                            [FindUploadId b obj,
                                             ListAllParts b obj (interpolate uploadId),
                                             UploadChunks b obj
                                               (putObject_contentType contentType) uploadId
                                               etags (calculatePartSize sz) sz stream,
                                             CompleteMultipartUpload b obj uploadId
                                               etags']))))
          \<and> (\<forall>uploadId s1.
               findUploadId M b obj s = (Inr uploadId, s1) \<and> \<not> truthy uploadId
               \<longrightarrow> (\<forall>s2. initiateNewMultipartUpload M b obj
                             (putObject_contentType contentType) s1 = (Inl e, s2)
                      \<longrightarrow> putObject D M b obj stream sz contentType True s
                          = Inr (Inl e, s2,
                                 [FindUploadId b obj,
                                  InitiateNewMultipartUpload b obj
                                    (putObject_contentType contentType)]))
                   \<and> (\<forall>newId s2.
                        initiateNewMultipartUpload M b obj
                            (putObject_contentType contentType) s1 = (Inr newId, s2)
                        \<longrightarrow> (\<forall>s3. uploadChunks M b obj (putObject_contentType contentType)
                                     newId [] (calculatePartSize sz) sz stream s2
                                   = (Inl e, s3)
                               \<longrightarrow> putObject D M b obj stream sz contentType True s
                                   = Inr (Inl e, s3,
                                          [FindUploadId b obj,
                                           InitiateNewMultipartUpload b obj
                                             (putObject_contentType contentType),
                                           UploadChunks b obj
                                             (putObject_contentType contentType) newId []
                                             (calculatePartSize sz) sz stream]))
                            \<and> (\<forall>etags' s3.
                                 uploadChunks M b obj (putObject_contentType contentType)
                                     newId [] (calculatePartSize sz) sz stream s2
                                   = (Inr etags', s3)
                                 \<longrightarrow> putObject D M b obj stream sz contentType True s
                                     = Inr (fst (completeMultipartUpload M b obj newId
                                                   etags' s3),
                                            snd (completeMultipartUpload M b obj newId
                                                   etags' s3),
                                            [FindUploadId b obj,
                                             InitiateNewMultipartUpload b obj
                                               (putObject_contentType contentType),
                                             UploadChunks b obj
                                               (putObject_contentType contentType) newId []
                                               (calculatePartSize sz) sz stream,
                                             CompleteMultipartUpload b obj newId
                                               etags'])))))"
  apply (intro conjI)
  subgoal by (simp add: putObject_single(1))
  subgoal by (simp add: putObject_single(2))
  subgoal
  proof
    assume a: "checkObjectArgs D b obj = None \<and> sz > 5 * MiB"
    let ?ct = "putObject_contentType contentType"
    obtain res s' calls where m:
      "putObject_multipart M b obj stream sz ?ct s = (res, s', calls)"
      by (cases "putObject_multipart M b obj stream sz ?ct s") auto
    from a m have "putObject D M b obj stream sz contentType True s = Inr (res, s', calls)"
      by (simp add: putObject_large)
    with putObject_multipart_calls(1,2,3) [OF m]
    show "\<exists>res s' calls.
             putObject D M b obj stream sz contentType True s = Inr (res, s', calls)
             \<and> calls \<noteq> [] \<and> hd calls = FindUploadId b obj
             \<and> \<not> list_ex isDoPutObject calls"
      by (intro exI [of _ res] exI [of _ s'] exI [of _ calls] conjI)
  qed
  subgoal
    by (intro impI conjI allI)
      (simp_all add: putObject_large putObject_multipart_stops putObject_multipart_resumed
        putObject_multipart_new)
  done

lemma length_exampleObject: "length (exampleObject n) = n"
  by (simp add: exampleObject_def)

lemma exampleStore_answers:
  "doPutObject (exampleStore found) b obj ct u n d s = (Inr ''etag-of-single-put'', Suc s)"
  "findUploadId (exampleStore found) b obj s = (Inr found, Suc s)"
  "listAllParts (exampleStore found) b obj upload s = (Inr [''etag-of-part-1''], Suc s)"
  "initiateNewMultipartUpload (exampleStore found) b obj ct s = (Inr (Some ''upload-1''), Suc s)"
  "completeMultipartUpload (exampleStore found) b obj u etags s = (Inr ''etag-of-object'', Suc s)"
  by (simp_all add: exampleStore_def)

lemma exampleStore_uploadChunks:
  "uploadChunks (exampleStore found) b obj ct u etags partSize (int n)
     (Readable [exampleObject n] None) s
   = (Inr (etags @ replicate (nat (partCount (int n) partSize) - length etags)
                     ''etag-of-new-part''), Suc s)"
  "length content \<noteq> n
   \<Longrightarrow> uploadChunks (exampleStore found) b obj ct u etags partSize (int n)
         (Readable [content] None) s
       = (Inl exampleSizeMismatch, Suc s)"
  by (simp_all add: exampleStore_def concater_def length_exampleObject)

theorem putObject_strategy_witness:
  "putObject exampleDeps (exampleStore None) ''mybucket'' ''key''
     (Readable [''hello '', ''world''] None) 11 [] True 0
   = Inr (Inr ''etag-of-single-put'', 1,
          [DoPutObject ''mybucket'' ''key'' ''application/octet-stream'' None None
             ''hello world''])
   \<and> putObject exampleDeps (exampleStore None) ''mybucket'' ''key''
         (Readable [exampleObject 6000000] None) 6000000 ''text/plain'' True 0
     = Inr (Inr ''etag-of-object'', 4,
            [FindUploadId ''mybucket'' ''key'',
             InitiateNewMultipartUpload ''mybucket'' ''key'' ''text/plain'',
             UploadChunks ''mybucket'' ''key'' ''text/plain'' (Some ''upload-1'') []
               5242880 6000000 (Readable [exampleObject 6000000] None),
             CompleteMultipartUpload ''mybucket'' ''key'' (Some ''upload-1'')
               [''etag-of-new-part'', ''etag-of-new-part'']])
   \<and> putObject exampleDeps (exampleStore (Some ''upload-0'')) ''mybucket'' ''key''
         (Readable [exampleObject 6000000] None) 6000000 ''text/plain'' True 0
     = Inr (Inr ''etag-of-object'', 4,
            [FindUploadId ''mybucket'' ''key'',
             ListAllParts ''mybucket'' ''key'' ''upload-0'',
             UploadChunks ''mybucket'' ''key'' ''text/plain'' (Some ''upload-0'')
               [''etag-of-part-1''] 5242880 6000000 (Readable [exampleObject 6000000] None),
             CompleteMultipartUpload ''mybucket'' ''key'' (Some ''upload-0'')
               [''etag-of-part-1'', ''etag-of-new-part'']])
   \<and> putObject exampleDeps (exampleStore None) ''mybucket'' ''key''
         (Readable [''hello''] None) 6000000 ''text/plain'' True 0
     = Inr (Inl exampleSizeMismatch, 3,
            [FindUploadId ''mybucket'' ''key'',
             InitiateNewMultipartUpload ''mybucket'' ''key'' ''text/plain'',
             UploadChunks ''mybucket'' ''key'' ''text/plain'' (Some ''upload-1'') []
               5242880 6000000 (Readable [''hello''] None)])"
proof (intro conjI)
  let ?big = "Readable [exampleObject 6000000] None"
  have args: "checkObjectArgs exampleDeps ''mybucket'' ''key'' = None"
    by (simp add: checkObjectArgs_def exampleDeps_def trimIsEmpty_def isWhiteSpace_def)
  have data: "concater (Readable [''hello '', ''world''] None) = Inr ''hello world''"
    by (simp add: concater_def)
  have small: "(11::int) \<le> 5 * MiB" and large: "(6000000::int) > 5 * MiB"
    by (simp_all add: MiB_def)
  have ct: "putObject_contentType [] = ''application/octet-stream''"
    "putObject_contentType ''text/plain'' = ''text/plain''"
    by (simp_all add: putObject_contentType_def trimIsEmpty_def isWhiteSpace_def)
  have partSize: "calculatePartSize 6000000 = 5242880"
    by (simp add: calculatePartSize_def minimumPartSize_def maximumPartSize_def)
  have parts: "nat (partCount 6000000 5242880) = 2"
    by (simp add: partCount_def)
  have two: "replicate 2 x = [x, x]" for x :: string
    by (simp add: numeral_2_eq_2)
  have upload: "uploadChunks (exampleStore found) b obj ct u etags (calculatePartSize 6000000)
      6000000 ?big s
      = (Inr (etags @ replicate (2 - length etags) ''etag-of-new-part''), Suc s)"
    for found b obj ct u etags s
    using exampleStore_uploadChunks(1) [where n = 6000000 and partSize = 5242880]
    by (simp add: partSize parts)
  have short: "uploadChunks (exampleStore found) b obj ct u etags (calculatePartSize 6000000)
      6000000 (Readable [''hello''] None) s = (Inl exampleSizeMismatch, Suc s)"
    for found b obj ct u etags s
    using exampleStore_uploadChunks(2) [where n = 6000000 and content = "''hello''"]
    by simp
  from putObject_strategy [where D = exampleDeps and M = "exampleStore None" and s = 0
      and contentType = "[]", THEN conjunct1, THEN mp, OF conjI [OF args conjI [OF small data]]]
  show "putObject exampleDeps (exampleStore None) ''mybucket'' ''key''
     (Readable [''hello '', ''world''] None) 11 [] True 0
   = Inr (Inr ''etag-of-single-put'', 1,
          [DoPutObject ''mybucket'' ''key'' ''application/octet-stream'' None None
             ''hello world''])"
    by (simp add: ct exampleStore_answers)
  have fresh: "findUploadId (exampleStore None) ''mybucket'' ''key'' 0 = (Inr None, Suc 0)
      \<and> \<not> truthy None"
    by (simp add: exampleStore_answers)
  have found: "findUploadId (exampleStore (Some ''upload-0'')) ''mybucket'' ''key'' 0
        = (Inr (Some ''upload-0''), Suc 0)
      \<and> truthy (Some ''upload-0'')"
    by (simp add: exampleStore_answers)
  from putObject_strategy
    [where D = exampleDeps and M = "exampleStore None" and s = 0 and b = "''mybucket''"
      and obj = "''key''" and sz = 6000000 and contentType = "''text/plain''"
      and stream = ?big,
      THEN conjunct2, THEN conjunct2, THEN conjunct2, THEN mp, OF conjI [OF args large],
      THEN conjunct2, THEN conjunct2, THEN spec, THEN spec, THEN mp, OF fresh,
      THEN conjunct2, THEN spec, THEN spec, THEN mp, OF exampleStore_answers(4),
      THEN conjunct2, THEN spec, THEN spec, THEN mp, OF upload]
  show "putObject exampleDeps (exampleStore None) ''mybucket'' ''key'' ?big 6000000
          ''text/plain'' True 0
     = Inr (Inr ''etag-of-object'', 4,
            [FindUploadId ''mybucket'' ''key'',
             InitiateNewMultipartUpload ''mybucket'' ''key'' ''text/plain'',
             UploadChunks ''mybucket'' ''key'' ''text/plain'' (Some ''upload-1'') []
               5242880 6000000 ?big,
             CompleteMultipartUpload ''mybucket'' ''key'' (Some ''upload-1'')
               [''etag-of-new-part'', ''etag-of-new-part'']])"
    by (simp add: ct partSize two exampleStore_answers)
  from putObject_strategy
    [where D = exampleDeps and M = "exampleStore (Some ''upload-0'')" and s = 0
      and b = "''mybucket''" and obj = "''key''" and sz = 6000000
      and contentType = "''text/plain''" and stream = ?big,
      THEN conjunct2, THEN conjunct2, THEN conjunct2, THEN mp, OF conjI [OF args large],
      THEN conjunct2, THEN conjunct1, THEN spec, THEN spec, THEN mp, OF found,
      THEN conjunct2, THEN spec, THEN spec, THEN mp, OF exampleStore_answers(3),
      THEN conjunct2, THEN spec, THEN spec, THEN mp, OF upload]
  show "putObject exampleDeps (exampleStore (Some ''upload-0'')) ''mybucket'' ''key'' ?big
          6000000 ''text/plain'' True 0
     = Inr (Inr ''etag-of-object'', 4,
            [FindUploadId ''mybucket'' ''key'',
             ListAllParts ''mybucket'' ''key'' ''upload-0'',
             UploadChunks ''mybucket'' ''key'' ''text/plain'' (Some ''upload-0'')
               [''etag-of-part-1''] 5242880 6000000 ?big,
             CompleteMultipartUpload ''mybucket'' ''key'' (Some ''upload-0'')
               [''etag-of-part-1'', ''etag-of-new-part'']])"
    by (simp add: ct partSize exampleStore_answers)
  from putObject_strategy
    [where D = exampleDeps and M = "exampleStore None" and s = 0 and b = "''mybucket''"
      and obj = "''key''" and sz = 6000000 and contentType = "''text/plain''"
      and stream = "Readable [''hello''] None" and e = exampleSizeMismatch,
      THEN conjunct2, THEN conjunct2, THEN conjunct2, THEN mp, OF conjI [OF args large],
      THEN conjunct2, THEN conjunct2, THEN spec, THEN spec, THEN mp, OF fresh,
      THEN conjunct2, THEN spec, THEN spec, THEN mp, OF exampleStore_answers(4),
      THEN conjunct1, THEN spec, THEN mp, OF short]
  show "putObject exampleDeps (exampleStore None) ''mybucket'' ''key''
         (Readable [''hello''] None) 6000000 ''text/plain'' True 0
     = Inr (Inl exampleSizeMismatch, 3,
            [FindUploadId ''mybucket'' ''key'',
             InitiateNewMultipartUpload ''mybucket'' ''key'' ''text/plain'',
             UploadChunks ''mybucket'' ''key'' ''text/plain'' (Some ''upload-1'') []
               5242880 6000000 (Readable [''hello''] None)])"
    by (simp add: ct partSize)
qed


subsection \<open>Part size\<close>

lemma int_div_less_bound:
  fixes a p n :: int
  assumes "0 < p" and "a < p * n"
  shows "a div p < n"
proof (rule ccontr)
  assume "\<not> a div p < n"
  then have "n \<le> a div p" by simp
  then have "p * n \<le> p * (a div p)" using assms(1) by (simp add: mult_left_mono)
  moreover have "0 \<le> a mod p" using assms(1) by simp
  moreover have "a = p * (a div p) + a mod p" by simp
  ultimately have "p * n \<le> a" by linarith
  with assms(2) show False by simp
qed

lemma calculatePartSize_agrees_below_limit:
  assumes "sz div 9999 \<le> 5 * GiB"
  shows "calculatePartSize sz = spec_partSize sz"
  using assms
  by (simp add: calculatePartSize_def spec_partSize_def clamp_def Let_def
      minimumPartSize_def maximumPartSize_def MiB_def GiB_def)

lemma calculatePartSize_upto_5TiB:
  assumes "sz \<le> 5 * TiB"
  shows "calculatePartSize sz = spec_partSize sz"
    and "5 * MiB \<le> calculatePartSize sz"
    and "calculatePartSize sz \<le> 5 * GiB"
proof -
  from assms have q: "sz div 9999 \<le> 5 * GiB"
    by (simp add: TiB_def GiB_def)
  show "calculatePartSize sz = spec_partSize sz"
    by (rule calculatePartSize_agrees_below_limit [OF q])
  show "5 * MiB \<le> calculatePartSize sz"
    by (simp add: calculatePartSize_def Let_def minimumPartSize_def maximumPartSize_def MiB_def)
  show "calculatePartSize sz \<le> 5 * GiB"
    using q
    by (simp add: calculatePartSize_def Let_def minimumPartSize_def maximumPartSize_def
        MiB_def GiB_def)
qed

lemma partCount_upto_5TiB:
  assumes "0 \<le> sz" and "sz \<le> 5 * TiB"
  shows "partCount sz (calculatePartSize sz) \<le> 10000"
proof -
  define p where "p = calculatePartSize sz"
  have p_lo: "5 * MiB \<le> p"
    unfolding p_def by (rule calculatePartSize_upto_5TiB(2) [OF assms(2)])
  have p_q: "sz div 9999 \<le> p"
    unfolding p_def
    by (simp add: calculatePartSize_def Let_def minimumPartSize_def maximumPartSize_def)
      (use assms(2) in \<open>simp add: TiB_def\<close>)
  have "sz = 9999 * (sz div 9999) + sz mod 9999" by simp
  moreover have "sz mod 9999 < 9999" by simp
  ultimately have "sz < 9999 * (sz div 9999) + 9999" by linarith
  also have "\<dots> \<le> 9999 * p + 9999" using p_q by simp
  also have "\<dots> \<le> 9999 * p + p" using p_lo by (simp add: MiB_def)
  finally have "sz + p - 1 < 10000 * p + p - 1 + 1" by simp
  then have "sz + p - 1 < p * 10001" by (simp add: algebra_simps)
  moreover have "0 < p" using p_lo by (simp add: MiB_def)
  ultimately have "(sz + p - 1) div p < 10001"
    by (intro int_div_less_bound)
  then show ?thesis by (simp add: partCount_def p_def)
qed

text \<open>
  C1. The part size chosen on the multipart path is meant to be
  \<open>clamp(floor(size/9999), 5 MiB, 5 GiB)\<close>. The source's upper limit is
  \<open>5 * 1025 * 1024 * 1024\<close>, which is larger than 5 GiB, so for a declared size whose
  quotient by 9999 lies between the two limits the chosen part size exceeds 5 GiB:
  at \<open>size = 53694630000000\<close> the code chooses \<open>5370000000\<close> where the clamp
  gives \<open>5368709120\<close>.
\<close>

theorem calculatePartSize_above_5GiB:
  "calculatePartSize 53694630000000 = 5370000000
   \<and> spec_partSize 53694630000000 = 5368709120
   \<and> 5 * GiB < calculatePartSize 53694630000000"
  by (simp add: calculatePartSize_def spec_partSize_def clamp_def Let_def
      minimumPartSize_def maximumPartSize_def MiB_def GiB_def)

end
